theory Spec2Isabelle
  imports Complex_Main
begin

section \<open>urbs: the model-formulation engine\<close>

text \<open>
  A shallow embedding of \<^verbatim>\<open>urbs.py\<close>: the functions \<^verbatim>\<open>annuity_factor\<close>,
  \<^verbatim>\<open>commodity_balance\<close> and \<^verbatim>\<open>create_model\<close> with its rule functions.
  Python floats are modelled as exact reals, Python ints as \<open>int\<close>, strings as
  \<open>string\<close>. An exception raised by the Python code is the left injection of a sum type.
\<close>

subsection \<open>Errors\<close>

datatype error = ZeroDivisionError | KeyError | IndexError | ValueError | NotImplementedError

fun bind :: "error + 'a \<Rightarrow> ('a \<Rightarrow> error + 'b) \<Rightarrow> error + 'b" where
  "bind (Inl e) f = Inl e"
| "bind (Inr a) f = f a"

fun mapM :: "('a \<Rightarrow> error + 'b) \<Rightarrow> 'a list \<Rightarrow> error + 'b list" where
  "mapM f [] = Inr []"
| "mapM f (x # xs) = bind (f x) (\<lambda>y. bind (mapM f xs) (\<lambda>ys. Inr (y # ys)))"

fun foldM :: "('b \<Rightarrow> 'a \<Rightarrow> error + 'b) \<Rightarrow> 'b \<Rightarrow> 'a list \<Rightarrow> error + 'b" where
  "foldM f b [] = Inr b"
| "foldM f b (x # xs) = bind (f b x) (\<lambda>b'. foldM f b' xs)"

subsection \<open>The annuity factor\<close>

text \<open>
  \<^verbatim>\<open>return (1+i)**n * i / ((1+i)**n - 1)\<close>

  The depreciation period is a whole number of years, the interest rate a real. Python
  raises ZeroDivisionError for a zero base with a negative exponent and for a zero divisor.
\<close>

definition annuity_factor :: "int \<Rightarrow> real \<Rightarrow> error + real" where
  "annuity_factor n i =
     (if 1 + i = 0 \<and> n < 0 then Inl ZeroDivisionError
      else if power_int (1 + i) n - 1 = 0 then Inl ZeroDivisionError
      else Inr (power_int (1 + i) n * i / (power_int (1 + i) n - 1)))"

subsection \<open>Input tables\<close>

text \<open>
  The index tuples of the four entity tables, as \<^verbatim>\<open>read_excel\<close> sets them:
  \<^verbatim>\<open>['Sit', 'Com', 'Type']\<close>, \<^verbatim>\<open>['Sit', 'Pro', 'CoIn', 'CoOut']\<close>,
  \<^verbatim>\<open>['SitIn', 'SitOut', 'Tra', 'Com']\<close> and \<^verbatim>\<open>['Sit', 'Sto', 'Com']\<close>.
\<close>

type_synonym com_tuple = "string \<times> string \<times> string"
type_synonym pro_tuple = "string \<times> string \<times> string \<times> string"
type_synonym tra_tuple = "string \<times> string \<times> string \<times> string"
type_synonym sto_tuple = "string \<times> string \<times> string"

text \<open>The columns that \<^verbatim>\<open>create_model\<close> reads from each table.\<close>

record commodity_row =
  c_max :: real
  c_maxperstep :: real
  c_price :: real

record process_row =
  p_eff :: real
  p_co2 :: real
  p_cap_lo :: real
  p_cap_up :: real
  p_inst_cap :: real
  p_inv_cost :: real
  p_fix_cost :: real
  p_var_cost :: real
  p_annuity_factor :: real

record transmission_row =
  t_eff :: real
  t_cap_lo :: real
  t_cap_up :: real
  t_inst_cap :: real
  t_inv_cost :: real
  t_fix_cost :: real
  t_var_cost :: real
  t_annuity_factor :: real

record storage_row =
  s_eff_in :: real
  s_eff_out :: real
  s_inst_cap_p :: real
  s_inst_cap_c :: real
  s_cap_lo_p :: real
  s_cap_up_p :: real
  s_cap_lo_c :: real
  s_cap_up_c :: real
  s_init :: real
  s_inv_cost_p :: real
  s_inv_cost_c :: real
  s_fix_cost_p :: real
  s_fix_cost_c :: real
  s_var_cost_p :: real
  s_var_cost_c :: real
  s_annuity_factor :: real

text \<open>
  A DataFrame is an association list from index to row. The two time series have one row
  per timestep and one column per (site, commodity) pair.
\<close>

type_synonym series = "(int \<times> ((string \<times> string) \<times> real) list) list"

record data =
  d_commodity :: "(com_tuple \<times> commodity_row) list"
  d_process :: "(pro_tuple \<times> process_row) list"
  d_transmission :: "(tra_tuple \<times> transmission_row) list"
  d_storage :: "(sto_tuple \<times> storage_row) list"
  d_demand :: series
  d_supim :: series

text \<open>\<^verbatim>\<open>frame.loc[key]\<close>: a missing key raises KeyError.\<close>

definition loc :: "('k \<times> 'r) list \<Rightarrow> 'k \<Rightarrow> error + 'r" where
  "loc frame k = (case map_of frame k of None \<Rightarrow> Inl KeyError | Some r \<Rightarrow> Inr r)"

text \<open>\<^verbatim>\<open>row[column]\<close> of a row that was looked up before.\<close>

definition attr :: "('r \<Rightarrow> real) \<Rightarrow> error + 'r \<Rightarrow> error + real" where
  "attr f row = bind row (\<lambda>r. Inr (f r))"

subsection \<open>Sets and parameters of the model\<close>

text \<open>
  The part of the model object that the rule functions read: the input tables, the sets
  and the two scalar parameters (field \<open>m_x\<close> is the attribute \<^verbatim>\<open>m.x\<close>). A pyomo
  set is kept as the list of its elements.
\<close>

record model =
  m_commodity :: "(com_tuple \<times> commodity_row) list"
  m_process :: "(pro_tuple \<times> process_row) list"
  m_transmission :: "(tra_tuple \<times> transmission_row) list"
  m_storage :: "(sto_tuple \<times> storage_row) list"
  m_demand :: series
  m_supim :: series
  m_t :: "int list"
  m_tm :: "int list"
  m_sit :: "string list"
  m_com :: "string list"
  m_com_type :: "string list"
  m_pro :: "string list"
  m_tra :: "string list"
  m_sto :: "string list"
  m_cost_type :: "string list"
  m_com_tuples :: "com_tuple list"
  m_pro_tuples :: "pro_tuple list"
  m_tra_tuples :: "tra_tuple list"
  m_sto_tuples :: "sto_tuple list"
  m_com_supim :: "string list"
  m_com_stock :: "string list"
  m_com_demand :: "string list"
  m_weight :: real
  m_dt :: real

subsection \<open>Variables and expressions\<close>

text \<open>One constructor per \<^verbatim>\<open>pyomo.Var\<close> of the model, with its index.\<close>

datatype var =
    cap_pro pro_tuple
  | cap_pro_new pro_tuple
  | cap_tra tra_tuple
  | cap_tra_new tra_tuple
  | cap_sto_c sto_tuple
  | cap_sto_c_new sto_tuple
  | cap_sto_p sto_tuple
  | cap_sto_p_new sto_tuple
  | co2_pro_out int pro_tuple
  | costs string
  | e_co_stock int com_tuple
  | e_pro_in int pro_tuple
  | e_pro_out int pro_tuple
  | e_tra_in int tra_tuple
  | e_tra_out int tra_tuple
  | e_sto_in int sto_tuple
  | e_sto_out int sto_tuple
  | e_sto_con int sto_tuple

text \<open>The index set each variable is declared over (lines 253 to 330).\<close>

fun var_exists :: "model \<Rightarrow> var \<Rightarrow> bool" where
  "var_exists m (cap_pro p) = (p \<in> set (m_pro_tuples m))"
| "var_exists m (cap_pro_new p) = (p \<in> set (m_pro_tuples m))"
| "var_exists m (cap_tra x) = (x \<in> set (m_tra_tuples m))"
| "var_exists m (cap_tra_new x) = (x \<in> set (m_tra_tuples m))"
| "var_exists m (cap_sto_c s) = (s \<in> set (m_sto_tuples m))"
| "var_exists m (cap_sto_c_new s) = (s \<in> set (m_sto_tuples m))"
| "var_exists m (cap_sto_p s) = (s \<in> set (m_sto_tuples m))"
| "var_exists m (cap_sto_p_new s) = (s \<in> set (m_sto_tuples m))"
| "var_exists m (co2_pro_out t p) = (t \<in> set (m_tm m) \<and> p \<in> set (m_pro_tuples m))"
| "var_exists m (costs c) = (c \<in> set (m_cost_type m))"
| "var_exists m (e_co_stock t c) = (t \<in> set (m_tm m) \<and> c \<in> set (m_com_tuples m))"
| "var_exists m (e_pro_in t p) = (t \<in> set (m_tm m) \<and> p \<in> set (m_pro_tuples m))"
| "var_exists m (e_pro_out t p) = (t \<in> set (m_tm m) \<and> p \<in> set (m_pro_tuples m))"
| "var_exists m (e_tra_in t x) = (t \<in> set (m_tm m) \<and> x \<in> set (m_tra_tuples m))"
| "var_exists m (e_tra_out t x) = (t \<in> set (m_tm m) \<and> x \<in> set (m_tra_tuples m))"
| "var_exists m (e_sto_in t s) = (t \<in> set (m_tm m) \<and> s \<in> set (m_sto_tuples m))"
| "var_exists m (e_sto_out t s) = (t \<in> set (m_tm m) \<and> s \<in> set (m_sto_tuples m))"
| "var_exists m (e_sto_con t s) = (t \<in> set (m_t m) \<and> s \<in> set (m_sto_tuples m))"

text \<open>
  The expressions that the Python operators build from variables and numbers. Every
  product and quotient of the source has a number (a parameter or a table value) on the
  right.
\<close>

datatype expr =
    Num real
  | V var
  | Add expr expr
  | Sub expr expr
  | Neg expr
  | MulC expr real
  | DivC expr real

datatype constraint =
    Eq expr expr
  | Le expr expr
  | Ge expr expr
  | Range real expr real

text \<open>\<^verbatim>\<open>m.x[index]\<close>: an index outside the variable's index set raises KeyError.\<close>

definition getvar :: "model \<Rightarrow> var \<Rightarrow> error + expr" where
  "getvar m v = (if var_exists m v then Inr (V v) else Inl KeyError)"

text \<open>The operators, evaluating the left operand before the right one.\<close>

definition e_add :: "error + expr \<Rightarrow> error + expr \<Rightarrow> error + expr" where
  "e_add x y = bind x (\<lambda>a. bind y (\<lambda>b. Inr (Add a b)))"

definition e_sub :: "error + expr \<Rightarrow> error + expr \<Rightarrow> error + expr" where
  "e_sub x y = bind x (\<lambda>a. bind y (\<lambda>b. Inr (Sub a b)))"

definition e_neg :: "error + expr \<Rightarrow> error + expr" where
  "e_neg x = bind x (\<lambda>a. Inr (Neg a))"

definition e_mul :: "error + expr \<Rightarrow> error + real \<Rightarrow> error + expr" where
  "e_mul x k = bind x (\<lambda>a. bind k (\<lambda>r. Inr (MulC a r)))"

definition e_div :: "error + expr \<Rightarrow> error + real \<Rightarrow> error + expr" where
  "e_div x k = bind x (\<lambda>a. bind k (\<lambda>r. if r = 0 then Inl ZeroDivisionError else Inr (DivC a r)))"

definition c_eq :: "error + expr \<Rightarrow> error + expr \<Rightarrow> error + constraint option" where
  "c_eq x y = bind x (\<lambda>a. bind y (\<lambda>b. Inr (Some (Eq a b))))"

definition c_le :: "error + expr \<Rightarrow> error + expr \<Rightarrow> error + constraint option" where
  "c_le x y = bind x (\<lambda>a. bind y (\<lambda>b. Inr (Some (Le a b))))"

definition c_ge :: "error + expr \<Rightarrow> error + expr \<Rightarrow> error + constraint option" where
  "c_ge x y = bind x (\<lambda>a. bind y (\<lambda>b. Inr (Some (Ge a b))))"

definition c_range :: "error + real \<Rightarrow> error + expr \<Rightarrow> error + real \<Rightarrow> error + constraint option" where
  "c_range lo x hi = bind lo (\<lambda>l. bind x (\<lambda>a. bind hi (\<lambda>h. Inr (Some (Range l a h)))))"

definition num :: "error + real \<Rightarrow> error + expr" where
  "num k = bind k (\<lambda>r. Inr (Num r))"

text \<open>Python's \<^verbatim>\<open>sum\<close> of a generator: it starts from 0 and adds from the left.\<close>

definition py_sum :: "expr list \<Rightarrow> expr" where
  "py_sum xs = foldl Add (Num 0) xs"

text \<open>The value of an expression, its variables, and the coefficient of a variable.\<close>

fun eval :: "(var \<Rightarrow> real) \<Rightarrow> expr \<Rightarrow> real" where
  "eval \<rho> (Num r) = r"
| "eval \<rho> (V v) = \<rho> v"
| "eval \<rho> (Add a b) = eval \<rho> a + eval \<rho> b"
| "eval \<rho> (Sub a b) = eval \<rho> a - eval \<rho> b"
| "eval \<rho> (Neg a) = - eval \<rho> a"
| "eval \<rho> (MulC a k) = eval \<rho> a * k"
| "eval \<rho> (DivC a k) = eval \<rho> a / k"

fun vars :: "expr \<Rightarrow> var set" where
  "vars (Num r) = {}"
| "vars (V v) = {v}"
| "vars (Add a b) = vars a \<union> vars b"
| "vars (Sub a b) = vars a \<union> vars b"
| "vars (Neg a) = vars a"
| "vars (MulC a k) = vars a"
| "vars (DivC a k) = vars a"

fun coef :: "expr \<Rightarrow> var \<Rightarrow> real" where
  "coef (Num r) v = 0"
| "coef (V w) v = (if w = v then 1 else 0)"
| "coef (Add a b) v = coef a v + coef b v"
| "coef (Sub a b) v = coef a v - coef b v"
| "coef (Neg a) v = - coef a v"
| "coef (MulC a k) v = coef a v * k"
| "coef (DivC a k) v = coef a v / k"

fun con_vars :: "constraint \<Rightarrow> var set" where
  "con_vars (Eq a b) = vars a \<union> vars b"
| "con_vars (Le a b) = vars a \<union> vars b"
| "con_vars (Ge a b) = vars a \<union> vars b"
| "con_vars (Range l a h) = vars a"

text \<open>
  The coefficient of a variable in a constraint, read as \<open>right side - left side\<close>
  related to zero (for a range, the coefficient in the bounded expression).
\<close>

fun con_coef :: "constraint \<Rightarrow> var \<Rightarrow> real" where
  "con_coef (Eq a b) v = coef b v - coef a v"
| "con_coef (Le a b) v = coef b v - coef a v"
| "con_coef (Ge a b) v = coef b v - coef a v"
| "con_coef (Range l a h) v = coef a v"

subsection \<open>The commodity balance\<close>

text \<open>The body of each of the three loops of \<^verbatim>\<open>commodity_balance\<close>.\<close>

definition balance_pro :: "model \<Rightarrow> int \<Rightarrow> string \<Rightarrow> string \<Rightarrow> expr \<Rightarrow> pro_tuple \<Rightarrow> error + expr" where
  "balance_pro m tm sit com balance p =
     (case p of (p0, p1, p2, p3) \<Rightarrow>
        bind (if p0 = sit \<and> p2 = com then e_add (Inr balance) (getvar m (e_pro_in tm p))
              else Inr balance)
          (\<lambda>balance. if p0 = sit \<and> p3 = com then e_sub (Inr balance) (getvar m (e_pro_out tm p))
                      else Inr balance))"

definition balance_tra :: "model \<Rightarrow> int \<Rightarrow> string \<Rightarrow> string \<Rightarrow> expr \<Rightarrow> tra_tuple \<Rightarrow> error + expr" where
  "balance_tra m tm sit com balance t =
     (case t of (t0, t1, t2, t3) \<Rightarrow>
        bind (if t0 = sit \<and> t3 = com then e_add (Inr balance) (getvar m (e_tra_in tm t))
              else Inr balance)
          (\<lambda>balance. if t1 = sit \<and> t3 = com then e_sub (Inr balance) (getvar m (e_tra_out tm t))
                      else Inr balance))"

definition balance_sto :: "model \<Rightarrow> int \<Rightarrow> string \<Rightarrow> string \<Rightarrow> expr \<Rightarrow> sto_tuple \<Rightarrow> error + expr" where
  "balance_sto m tm sit com balance s =
     (case s of (s0, s1, s2) \<Rightarrow>
        if s0 = sit \<and> s2 = com
        then bind (e_add (Inr balance) (getvar m (e_sto_in tm s)))
               (\<lambda>balance. e_sub (Inr balance) (getvar m (e_sto_out tm s)))
        else Inr balance)"

definition commodity_balance :: "model \<Rightarrow> int \<Rightarrow> string \<Rightarrow> string \<Rightarrow> error + expr" where
  "commodity_balance m tm sit com =
     bind (foldM (balance_pro m tm sit com) (Num 0) (m_pro_tuples m))
       (\<lambda>balance. bind (foldM (balance_tra m tm sit com) balance (m_tra_tuples m))
          (\<lambda>balance. foldM (balance_sto m tm sit com) balance (m_sto_tuples m)))"

subsection \<open>The rule functions of \<^verbatim>\<open>create_model\<close>\<close>

text \<open>
  A rule returns a constraint, or \<open>None\<close> for \<^verbatim>\<open>pyomo.Constraint.Skip\<close>, or raises.
  \<^verbatim>\<open>series.loc[tm][sit, com]\<close> reads a time series.
\<close>

definition series_at :: "series \<Rightarrow> int \<Rightarrow> string \<Rightarrow> string \<Rightarrow> error + real" where
  "series_at sr tm sit com = bind (loc sr tm) (\<lambda>row. loc row (sit, com))"

text \<open>\<^verbatim>\<open>m.t[k]\<close> of an ordered pyomo set, which counts from 1.\<close>

definition set_item :: "'a list \<Rightarrow> nat \<Rightarrow> error + 'a" where
  "set_item xs k = (if 1 \<le> k \<and> k \<le> length xs then Inr (xs ! (k - 1)) else Inl IndexError)"

definition sum_over :: "('a \<Rightarrow> error + expr) \<Rightarrow> 'a list \<Rightarrow> error + expr" where
  "sum_over f xs = bind (mapM f xs) (\<lambda>es. Inr (py_sum es))"

paragraph \<open>commodity\<close>

fun res_demand_rule :: "model \<Rightarrow> int \<times> com_tuple \<Rightarrow> error + constraint option" where
  "res_demand_rule m (tm, sit, com, com_type) =
     (if com \<notin> set (m_com_demand m) then Inr None
      else c_ge (e_neg (commodity_balance m tm sit com))
                (num (series_at (m_demand m) tm sit com)))"

fun def_e_co_stock_rule :: "model \<Rightarrow> int \<times> com_tuple \<Rightarrow> error + constraint option" where
  "def_e_co_stock_rule m (tm, sit, com, com_type) =
     (if com \<notin> set (m_com_stock m) then Inr None
      else c_eq (getvar m (e_co_stock tm (sit, com, com_type)))
                (commodity_balance m tm sit com))"

fun res_stock_step_rule :: "model \<Rightarrow> int \<times> com_tuple \<Rightarrow> error + constraint option" where
  "res_stock_step_rule m (tm, sit, com, com_type) =
     (if com \<notin> set (m_com_stock m) then Inr None
      else c_le (getvar m (e_co_stock tm (sit, com, com_type)))
                (num (attr c_maxperstep (loc (m_commodity m) (sit, com, com_type)))))"

fun res_stock_total_rule :: "model \<Rightarrow> com_tuple \<Rightarrow> error + constraint option" where
  "res_stock_total_rule m (sit, com, com_type) =
     (if com \<notin> set (m_com_stock m) then Inr None
      else c_le (e_mul (foldM (\<lambda>total_consumption tm.
                                 e_add (Inr total_consumption)
                                   (e_mul (getvar m (e_co_stock tm (sit, com, com_type)))
                                          (Inr (m_dt m))))
                          (Num 0) (m_tm m))
                       (Inr (m_weight m)))
                (num (attr c_max (loc (m_commodity m) (sit, com, com_type)))))"

paragraph \<open>process\<close>

definition def_process_capacity_rule :: "model \<Rightarrow> pro_tuple \<Rightarrow> error + constraint option" where
  "def_process_capacity_rule m p =
     c_eq (getvar m (cap_pro p))
          (e_add (getvar m (cap_pro_new p)) (num (attr p_inst_cap (loc (m_process m) p))))"

fun def_process_output_rule :: "model \<Rightarrow> int \<times> pro_tuple \<Rightarrow> error + constraint option" where
  "def_process_output_rule m (tm, p) =
     c_eq (getvar m (e_pro_out tm p))
          (e_mul (getvar m (e_pro_in tm p)) (attr p_eff (loc (m_process m) p)))"

fun def_intermittent_supply_rule :: "model \<Rightarrow> int \<times> pro_tuple \<Rightarrow> error + constraint option" where
  "def_intermittent_supply_rule m (tm, sit, pro, coin, cout) =
     (if coin \<in> set (m_com_supim m)
      then c_eq (getvar m (e_pro_in tm (sit, pro, coin, cout)))
                (e_mul (getvar m (cap_pro (sit, pro, coin, cout)))
                       (series_at (m_supim m) tm sit coin))
      else Inr None)"

fun def_co2_emissions_rule :: "model \<Rightarrow> int \<times> pro_tuple \<Rightarrow> error + constraint option" where
  "def_co2_emissions_rule m (tm, p) =
     c_eq (getvar m (co2_pro_out tm p))
          (e_mul (e_mul (getvar m (e_pro_in tm p)) (attr p_co2 (loc (m_process m) p)))
                 (Inr (m_dt m)))"

fun res_process_output_by_capacity_rule :: "model \<Rightarrow> int \<times> pro_tuple \<Rightarrow> error + constraint option" where
  "res_process_output_by_capacity_rule m (tm, p) =
     c_le (getvar m (e_pro_out tm p)) (getvar m (cap_pro p))"

definition res_process_capacity_rule :: "model \<Rightarrow> pro_tuple \<Rightarrow> error + constraint option" where
  "res_process_capacity_rule m p =
     c_range (attr p_cap_lo (loc (m_process m) p))
             (getvar m (cap_pro p))
             (attr p_cap_up (loc (m_process m) p))"

paragraph \<open>transmission\<close>

text \<open>The source's \<^verbatim>\<open>sin\<close> and \<^verbatim>\<open>sout\<close> are \<open>sit_in\<close> and \<open>sit_out\<close> here.\<close>

definition def_transmission_capacity_rule :: "model \<Rightarrow> tra_tuple \<Rightarrow> error + constraint option" where
  "def_transmission_capacity_rule m x =
     c_eq (getvar m (cap_tra x))
          (e_add (getvar m (cap_tra_new x)) (num (attr t_inst_cap (loc (m_transmission m) x))))"

fun def_transmission_output_rule :: "model \<Rightarrow> int \<times> tra_tuple \<Rightarrow> error + constraint option" where
  "def_transmission_output_rule m (tm, x) =
     c_eq (getvar m (e_tra_out tm x))
          (e_mul (getvar m (e_tra_in tm x)) (attr t_eff (loc (m_transmission m) x)))"

fun res_transmission_input_by_capacity_rule :: "model \<Rightarrow> int \<times> tra_tuple \<Rightarrow> error + constraint option" where
  "res_transmission_input_by_capacity_rule m (tm, x) =
     c_le (getvar m (e_tra_in tm x)) (getvar m (cap_tra x))"

definition res_transmission_capacity_rule :: "model \<Rightarrow> tra_tuple \<Rightarrow> error + constraint option" where
  "res_transmission_capacity_rule m x =
     c_range (attr t_cap_lo (loc (m_transmission m) x))
             (getvar m (cap_tra x))
             (attr t_cap_up (loc (m_transmission m) x))"

fun res_transmission_symmetry_rule :: "model \<Rightarrow> tra_tuple \<Rightarrow> error + constraint option" where
  "res_transmission_symmetry_rule m (sit_in, sit_out, tra, com) =
     c_eq (getvar m (cap_tra (sit_in, sit_out, tra, com)))
          (getvar m (cap_tra (sit_out, sit_in, tra, com)))"

paragraph \<open>storage\<close>

fun def_storage_state_rule :: "model \<Rightarrow> int \<times> sto_tuple \<Rightarrow> error + constraint option" where
  "def_storage_state_rule m (t, s) =
     c_eq (getvar m (e_sto_con t s))
          (e_sub (e_add (getvar m (e_sto_con (t - 1) s))
                        (e_mul (e_mul (getvar m (e_sto_in t s))
                                      (attr s_eff_in (loc (m_storage m) s)))
                               (Inr (m_dt m))))
                 (e_mul (e_div (getvar m (e_sto_out t s))
                               (attr s_eff_out (loc (m_storage m) s)))
                        (Inr (m_dt m))))"

definition def_storage_power_rule :: "model \<Rightarrow> sto_tuple \<Rightarrow> error + constraint option" where
  "def_storage_power_rule m s =
     c_eq (getvar m (cap_sto_p s))
          (e_add (getvar m (cap_sto_p_new s)) (num (attr s_inst_cap_p (loc (m_storage m) s))))"

definition def_storage_capacity_rule :: "model \<Rightarrow> sto_tuple \<Rightarrow> error + constraint option" where
  "def_storage_capacity_rule m s =
     c_eq (getvar m (cap_sto_c s))
          (e_add (getvar m (cap_sto_c_new s)) (num (attr s_inst_cap_c (loc (m_storage m) s))))"

fun res_storage_input_by_power_rule :: "model \<Rightarrow> int \<times> sto_tuple \<Rightarrow> error + constraint option" where
  "res_storage_input_by_power_rule m (t, s) =
     c_le (getvar m (e_sto_in t s)) (getvar m (cap_sto_p s))"

fun res_storage_output_by_power_rule :: "model \<Rightarrow> int \<times> sto_tuple \<Rightarrow> error + constraint option" where
  "res_storage_output_by_power_rule m (t, s) =
     c_le (getvar m (e_sto_out t s)) (getvar m (cap_sto_p s))"

fun res_storage_state_by_capacity_rule :: "model \<Rightarrow> int \<times> sto_tuple \<Rightarrow> error + constraint option" where
  "res_storage_state_by_capacity_rule m (t, s) =
     c_le (getvar m (e_sto_con t s)) (getvar m (cap_sto_c s))"

definition res_storage_power_rule :: "model \<Rightarrow> sto_tuple \<Rightarrow> error + constraint option" where
  "res_storage_power_rule m s =
     c_range (attr s_cap_lo_p (loc (m_storage m) s))
             (getvar m (cap_sto_p s))
             (attr s_cap_up_p (loc (m_storage m) s))"

definition res_storage_capacity_rule :: "model \<Rightarrow> sto_tuple \<Rightarrow> error + constraint option" where
  "res_storage_capacity_rule m s =
     c_range (attr s_cap_lo_c (loc (m_storage m) s))
             (getvar m (cap_sto_c s))
             (attr s_cap_up_c (loc (m_storage m) s))"

fun res_initial_and_final_storage_state_rule :: "model \<Rightarrow> int \<times> sto_tuple \<Rightarrow> error + constraint option" where
  "res_initial_and_final_storage_state_rule m (t, s) =
     bind (set_item (m_t m) 1)
       (\<lambda>first. if t = first
          then c_eq (getvar m (e_sto_con t s))
                    (e_mul (getvar m (cap_sto_c s)) (attr s_init (loc (m_storage m) s)))
          else bind (set_item (m_t m) (length (m_t m)))
            (\<lambda>last. if t = last
               then c_ge (getvar m (e_sto_con t s))
                         (e_mul (getvar m (cap_sto_c s)) (attr s_init (loc (m_storage m) s)))
               else Inr None))"

paragraph \<open>emissions\<close>

text \<open>\<^verbatim>\<open>pyomo.summation(m.x)\<close> adds up every variable of \<^verbatim>\<open>m.x\<close>.\<close>

definition res_co2_emission_rule :: "model \<Rightarrow> unit \<Rightarrow> error + constraint option" where
  "res_co2_emission_rule m u =
     c_le (e_mul (Inr (py_sum (map (\<lambda>(tm, p). V (co2_pro_out tm p))
                                   (List.product (m_tm m) (m_pro_tuples m)))))
                 (Inr (m_weight m)))
          (num (attr c_max (loc (m_commodity m) (''Global'', ''CO2'', ''Env''))))"

paragraph \<open>costs\<close>

definition def_costs_rule :: "model \<Rightarrow> string \<Rightarrow> error + constraint option" where
  "def_costs_rule m cost_type =
     (if cost_type = ''Inv'' then
        c_eq (getvar m (costs ''Inv''))
          (e_add
            (e_add
              (sum_over (\<lambda>p. e_mul (e_mul (getvar m (cap_pro_new p))
                                           (attr p_inv_cost (loc (m_process m) p)))
                                    (attr p_annuity_factor (loc (m_process m) p)))
                 (m_pro_tuples m))
              (sum_over (\<lambda>t. e_mul (e_mul (getvar m (cap_tra_new t))
                                           (attr t_inv_cost (loc (m_transmission m) t)))
                                    (attr t_annuity_factor (loc (m_transmission m) t)))
                 (m_tra_tuples m)))
            (sum_over (\<lambda>s. e_add
                             (e_mul (e_mul (getvar m (cap_sto_p_new s))
                                           (attr s_inv_cost_p (loc (m_storage m) s)))
                                    (attr s_annuity_factor (loc (m_storage m) s)))
                             (e_mul (e_mul (getvar m (cap_sto_c_new s))
                                           (attr s_inv_cost_c (loc (m_storage m) s)))
                                    (attr s_annuity_factor (loc (m_storage m) s))))
               (m_sto_tuples m)))
      else if cost_type = ''Fix'' then
        c_eq (getvar m (costs ''Fix''))
          (e_add
            (e_add
              (sum_over (\<lambda>p. e_mul (getvar m (cap_pro p)) (attr p_fix_cost (loc (m_process m) p)))
                 (m_pro_tuples m))
              (sum_over (\<lambda>t. e_mul (getvar m (cap_tra t))
                                    (attr t_fix_cost (loc (m_transmission m) t)))
                 (m_tra_tuples m)))
            (sum_over (\<lambda>s. e_add
                             (e_mul (getvar m (cap_sto_p s))
                                    (attr s_fix_cost_p (loc (m_storage m) s)))
                             (e_mul (getvar m (cap_sto_c s))
                                    (attr s_fix_cost_c (loc (m_storage m) s))))
               (m_sto_tuples m)))
      else if cost_type = ''Var'' then
        c_eq (getvar m (costs ''Var''))
          (e_add
            (e_add
              (sum_over (\<lambda>(tm, p). e_mul (e_mul (e_mul (getvar m (e_pro_out tm p)) (Inr (m_dt m)))
                                                 (attr p_var_cost (loc (m_process m) p)))
                                          (Inr (m_weight m)))
                 (List.product (m_tm m) (m_pro_tuples m)))
              (sum_over (\<lambda>(tm, t). e_mul (e_mul (e_mul (getvar m (e_tra_in tm t)) (Inr (m_dt m)))
                                                 (attr t_var_cost (loc (m_transmission m) t)))
                                          (Inr (m_weight m)))
                 (List.product (m_tm m) (m_tra_tuples m))))
            (sum_over (\<lambda>(tm, s). e_add
                             (e_mul (e_mul (getvar m (e_sto_con tm s))
                                           (attr s_var_cost_c (loc (m_storage m) s)))
                                    (Inr (m_weight m)))
                             (e_mul (e_mul (e_mul (e_add (getvar m (e_sto_in tm s))
                                                         (getvar m (e_sto_out tm s)))
                                                  (Inr (m_dt m)))
                                           (attr s_var_cost_p (loc (m_storage m) s)))
                                    (Inr (m_weight m))))
               (List.product (m_tm m) (m_sto_tuples m))))
      else if cost_type = ''Fuel'' then
        c_eq (getvar m (costs ''Fuel''))
          (sum_over (\<lambda>(tm, c). e_mul (e_mul (e_mul (getvar m (e_co_stock tm c)) (Inr (m_dt m)))
                                             (attr c_price (loc (m_commodity m) c)))
                                      (Inr (m_weight m)))
             (filter (\<lambda>(tm, c). fst (snd c) \<in> set (m_com_stock m))
                (List.product (m_tm m) (m_com_tuples m))))
      else Inl NotImplementedError)"

definition obj_rule :: "model \<Rightarrow> expr" where
  "obj_rule m = py_sum (map (\<lambda>c. V (costs c)) (m_cost_type m))"

subsection \<open>Building the model\<close>

text \<open>
  \<^verbatim>\<open>pyomo.Constraint(index sets)\<close> calls the rule once for each index and keeps the
  constraints that are not skipped, under their index. An exception in a rule ends the
  build.
\<close>

fun Constraint :: "('i \<Rightarrow> error + constraint option) \<Rightarrow> 'i list \<Rightarrow> error + ('i \<times> constraint) list" where
  "Constraint rule [] = Inr []"
| "Constraint rule (i # idx) =
     bind (rule i) (\<lambda>c. bind (Constraint rule idx)
       (\<lambda>cs. Inr (case c of None \<Rightarrow> cs | Some c' \<Rightarrow> (i, c') # cs)))"

text \<open>The finished model: its sets and parameters, every constraint block, the objective.\<close>

record concrete_model =
  m_sets :: model
  res_demand :: "((int \<times> com_tuple) \<times> constraint) list"
  def_e_co_stock :: "((int \<times> com_tuple) \<times> constraint) list"
  res_stock_step :: "((int \<times> com_tuple) \<times> constraint) list"
  res_stock_total :: "((com_tuple) \<times> constraint) list"
  def_process_capacity :: "((pro_tuple) \<times> constraint) list"
  def_process_output :: "((int \<times> pro_tuple) \<times> constraint) list"
  def_intermittent_supply :: "((int \<times> pro_tuple) \<times> constraint) list"
  def_co2_emissions :: "((int \<times> pro_tuple) \<times> constraint) list"
  res_process_output_by_capacity :: "((int \<times> pro_tuple) \<times> constraint) list"
  res_process_capacity :: "((pro_tuple) \<times> constraint) list"
  def_transmission_capacity :: "((tra_tuple) \<times> constraint) list"
  def_transmission_output :: "((int \<times> tra_tuple) \<times> constraint) list"
  res_transmission_input_by_capacity :: "((int \<times> tra_tuple) \<times> constraint) list"
  res_transmission_capacity :: "((tra_tuple) \<times> constraint) list"
  res_transmission_symmetry :: "((tra_tuple) \<times> constraint) list"
  def_storage_state :: "((int \<times> sto_tuple) \<times> constraint) list"
  def_storage_power :: "((sto_tuple) \<times> constraint) list"
  def_storage_capacity :: "((sto_tuple) \<times> constraint) list"
  res_storage_input_by_power :: "((int \<times> sto_tuple) \<times> constraint) list"
  res_storage_output_by_power :: "((int \<times> sto_tuple) \<times> constraint) list"
  res_storage_state_by_capacity :: "((int \<times> sto_tuple) \<times> constraint) list"
  res_storage_power :: "((sto_tuple) \<times> constraint) list"
  res_storage_capacity :: "((sto_tuple) \<times> constraint) list"
  res_initial_and_final_storage_state :: "((int \<times> sto_tuple) \<times> constraint) list"
  res_co2_emission :: "((unit) \<times> constraint) list"
  def_costs :: "((string) \<times> constraint) list"
  obj :: expr

text \<open>
  Lines 125 to 241: the tables, the sets and the parameters. A tuple set whose elements
  are not \<^verbatim>\<open>within\<close> the product of the sets it is declared over raises ValueError.
  The list of cost types is hard-coded in the source; it is a parameter here, and
  \<open>create_model\<close> below passes the source's list.
\<close>

definition create_model_sets :: "string list \<Rightarrow> data \<Rightarrow> int list \<Rightarrow> real \<Rightarrow> error + model" where
  "create_model_sets cost_types data timesteps dt =
     (let com_tuples = map fst (d_commodity data);
          pro_tuples = map fst (d_process data);
          tra_tuples = map fst (d_transmission data);
          sto_tuples = map fst (d_storage data);
          sit = remdups (map fst com_tuples);
          com = remdups (map (\<lambda>c. fst (snd c)) com_tuples);
          com_type = remdups (map (\<lambda>c. snd (snd c)) com_tuples)
      in if \<not> list_all (\<lambda>(p0, p1, p2, p3). p0 \<in> set sit \<and> p2 \<in> set com \<and> p3 \<in> set com) pro_tuples
         then Inl ValueError
         else if \<not> list_all (\<lambda>(t0, t1, t2, t3). t0 \<in> set sit \<and> t1 \<in> set sit \<and> t3 \<in> set com) tra_tuples
         then Inl ValueError
         else if \<not> list_all (\<lambda>(s0, s1, s2). s0 \<in> set sit \<and> s2 \<in> set com) sto_tuples
         then Inl ValueError
         else if real (length timesteps) * dt = 0 then Inl ZeroDivisionError
         else Inr \<lparr>m_commodity = d_commodity data,
                   m_process = d_process data,
                   m_transmission = d_transmission data,
                   m_storage = d_storage data,
                   m_demand = d_demand data,
                   m_supim = d_supim data,
                   m_t = timesteps,
                   m_tm = tl timesteps,
                   m_sit = sit,
                   m_com = com,
                   m_com_type = com_type,
                   m_pro = remdups (map (\<lambda>p. fst (snd p)) pro_tuples),
                   m_tra = remdups (map (\<lambda>t. fst (snd (snd t))) tra_tuples),
                   m_sto = remdups (map (\<lambda>s. fst (snd s)) sto_tuples),
                   m_cost_type = cost_types,
                   m_com_tuples = com_tuples,
                   m_pro_tuples = pro_tuples,
                   m_tra_tuples = tra_tuples,
                   m_sto_tuples = sto_tuples,
                   m_com_supim = remdups (map (\<lambda>c. fst (snd c))
                                   (filter (\<lambda>c. snd (snd c) = ''SupIm'') com_tuples)),
                   m_com_stock = remdups (map (\<lambda>c. fst (snd c))
                                   (filter (\<lambda>c. snd (snd c) = ''Stock'') com_tuples)),
                   m_com_demand = remdups (map (\<lambda>c. fst (snd c))
                                    (filter (\<lambda>c. snd (snd c) = ''Demand'') com_tuples)),
                   m_weight = 8760 / (real (length timesteps) * dt),
                   m_dt = dt\<rparr>)"

text \<open>Lines 614 to 704: the constraint blocks, in the order of their declaration.\<close>

definition create_model_constraints :: "model \<Rightarrow> error + concrete_model" where
  "create_model_constraints m =
     bind (Constraint (res_demand_rule m) (List.product (m_tm m) (m_com_tuples m))) (\<lambda>c01.
     bind (Constraint (def_e_co_stock_rule m) (List.product (m_tm m) (m_com_tuples m))) (\<lambda>c02.
     bind (Constraint (res_stock_step_rule m) (List.product (m_tm m) (m_com_tuples m))) (\<lambda>c03.
     bind (Constraint (res_stock_total_rule m) (m_com_tuples m)) (\<lambda>c04.
     bind (Constraint (def_process_capacity_rule m) (m_pro_tuples m)) (\<lambda>c05.
     bind (Constraint (def_process_output_rule m) (List.product (m_tm m) (m_pro_tuples m))) (\<lambda>c06.
     bind (Constraint (def_intermittent_supply_rule m) (List.product (m_tm m) (m_pro_tuples m))) (\<lambda>c07.
     bind (Constraint (def_co2_emissions_rule m) (List.product (m_tm m) (m_pro_tuples m))) (\<lambda>c08.
     bind (Constraint (res_process_output_by_capacity_rule m) (List.product (m_tm m) (m_pro_tuples m))) (\<lambda>c09.
     bind (Constraint (res_process_capacity_rule m) (m_pro_tuples m)) (\<lambda>c10.
     bind (Constraint (def_transmission_capacity_rule m) (m_tra_tuples m)) (\<lambda>c11.
     bind (Constraint (def_transmission_output_rule m) (List.product (m_tm m) (m_tra_tuples m))) (\<lambda>c12.
     bind (Constraint (res_transmission_input_by_capacity_rule m) (List.product (m_tm m) (m_tra_tuples m))) (\<lambda>c13.
     bind (Constraint (res_transmission_capacity_rule m) (m_tra_tuples m)) (\<lambda>c14.
     bind (Constraint (res_transmission_symmetry_rule m) (m_tra_tuples m)) (\<lambda>c15.
     bind (Constraint (def_storage_state_rule m) (List.product (m_tm m) (m_sto_tuples m))) (\<lambda>c16.
     bind (Constraint (def_storage_power_rule m) (m_sto_tuples m)) (\<lambda>c17.
     bind (Constraint (def_storage_capacity_rule m) (m_sto_tuples m)) (\<lambda>c18.
     bind (Constraint (res_storage_input_by_power_rule m) (List.product (m_tm m) (m_sto_tuples m))) (\<lambda>c19.
     bind (Constraint (res_storage_output_by_power_rule m) (List.product (m_tm m) (m_sto_tuples m))) (\<lambda>c20.
     bind (Constraint (res_storage_state_by_capacity_rule m) (List.product (m_t m) (m_sto_tuples m))) (\<lambda>c21.
     bind (Constraint (res_storage_power_rule m) (m_sto_tuples m)) (\<lambda>c22.
     bind (Constraint (res_storage_capacity_rule m) (m_sto_tuples m)) (\<lambda>c23.
     bind (Constraint (res_initial_and_final_storage_state_rule m) (List.product (m_t m) (m_sto_tuples m))) (\<lambda>c24.
     bind (Constraint (res_co2_emission_rule m) ([()])) (\<lambda>c25.
     bind (Constraint (def_costs_rule m) (m_cost_type m)) (\<lambda>c26.
     Inr \<lparr>m_sets = m,
          res_demand = c01,
          def_e_co_stock = c02,
          res_stock_step = c03,
          res_stock_total = c04,
          def_process_capacity = c05,
          def_process_output = c06,
          def_intermittent_supply = c07,
          def_co2_emissions = c08,
          res_process_output_by_capacity = c09,
          res_process_capacity = c10,
          def_transmission_capacity = c11,
          def_transmission_output = c12,
          res_transmission_input_by_capacity = c13,
          res_transmission_capacity = c14,
          res_transmission_symmetry = c15,
          def_storage_state = c16,
          def_storage_power = c17,
          def_storage_capacity = c18,
          res_storage_input_by_power = c19,
          res_storage_output_by_power = c20,
          res_storage_state_by_capacity = c21,
          res_storage_power = c22,
          res_storage_capacity = c23,
          res_initial_and_final_storage_state = c24,
          res_co2_emission = c25,
          def_costs = c26,
          obj = obj_rule m\<rparr>))))))))))))))))))))))))))"

definition create_model_with :: "string list \<Rightarrow> data \<Rightarrow> int list \<Rightarrow> real \<Rightarrow> error + concrete_model" where
  "create_model_with cost_types data timesteps dt =
     bind (create_model_sets cost_types data timesteps dt) create_model_constraints"

definition create_model :: "data \<Rightarrow> int list \<Rightarrow> real \<Rightarrow> error + concrete_model" where
  "create_model data timesteps dt =
     create_model_with [''Inv'', ''Fix'', ''Var'', ''Fuel''] data timesteps dt"

text \<open>Every constraint of the finished model.\<close>

definition all_constraints :: "concrete_model \<Rightarrow> constraint list" where
  "all_constraints b =
     map snd (res_demand b) @
     map snd (def_e_co_stock b) @
     map snd (res_stock_step b) @
     map snd (res_stock_total b) @
     map snd (def_process_capacity b) @
     map snd (def_process_output b) @
     map snd (def_intermittent_supply b) @
     map snd (def_co2_emissions b) @
     map snd (res_process_output_by_capacity b) @
     map snd (res_process_capacity b) @
     map snd (def_transmission_capacity b) @
     map snd (def_transmission_output b) @
     map snd (res_transmission_input_by_capacity b) @
     map snd (res_transmission_capacity b) @
     map snd (res_transmission_symmetry b) @
     map snd (def_storage_state b) @
     map snd (def_storage_power b) @
     map snd (def_storage_capacity b) @
     map snd (res_storage_input_by_power b) @
     map snd (res_storage_output_by_power b) @
     map snd (res_storage_state_by_capacity b) @
     map snd (res_storage_power b) @
     map snd (res_storage_capacity b) @
     map snd (res_initial_and_final_storage_state b) @
     map snd (res_co2_emission b) @
     map snd (def_costs b)"

subsection \<open>What the specification speaks of\<close>

text \<open>
  The element that comes immediately before \<open>t\<close> in the ordered sequence of timesteps,
  and a sequence that counts up by one.
\<close>

fun preceding :: "int list \<Rightarrow> int \<Rightarrow> int option" where
  "preceding [] t = None"
| "preceding [x] t = None"
| "preceding (x # y # ys) t = (if y = t then Some x else preceding (y # ys) t)"

fun consecutive :: "int list \<Rightarrow> bool" where
  "consecutive [] = True"
| "consecutive [x] = True"
| "consecutive (x # y # ys) = (y = x + 1 \<and> consecutive (y # ys))"

text \<open>
  The signed sum of the flow variables at a site and commodity, under a valuation \<open>\<rho>\<close>
  of the variables: process inputs and outputs, transmission exports and imports,
  storage inputs and outputs.
\<close>

definition signed_sum :: "model \<Rightarrow> (var \<Rightarrow> real) \<Rightarrow> int \<Rightarrow> string \<Rightarrow> string \<Rightarrow> real" where
  "signed_sum m \<rho> tm sit com =
       sum_list (map (\<lambda>p. \<rho> (e_pro_in tm p))
          (filter (\<lambda>(p0, p1, p2, p3). p0 = sit \<and> p2 = com) (m_pro_tuples m)))
     - sum_list (map (\<lambda>p. \<rho> (e_pro_out tm p))
          (filter (\<lambda>(p0, p1, p2, p3). p0 = sit \<and> p3 = com) (m_pro_tuples m)))
     + sum_list (map (\<lambda>t. \<rho> (e_tra_in tm t))
          (filter (\<lambda>(t0, t1, t2, t3). t0 = sit \<and> t3 = com) (m_tra_tuples m)))
     - sum_list (map (\<lambda>t. \<rho> (e_tra_out tm t))
          (filter (\<lambda>(t0, t1, t2, t3). t1 = sit \<and> t3 = com) (m_tra_tuples m)))
     + sum_list (map (\<lambda>s. \<rho> (e_sto_in tm s) - \<rho> (e_sto_out tm s))
          (filter (\<lambda>(s0, s1, s2). s0 = sit \<and> s2 = com) (m_sto_tuples m)))"

subsection \<open>A small energy system\<close>

text \<open>
  Two sites joined by a line in both directions; a coal plant, a wind turbine and a
  battery at site A; demand for electricity at both sites.
\<close>

definition ex_process_row :: process_row where
  "ex_process_row = \<lparr>p_eff = 1/2, p_co2 = 1, p_cap_lo = 0, p_cap_up = 1000, p_inst_cap = 0,
     p_inv_cost = 10, p_fix_cost = 1, p_var_cost = 2, p_annuity_factor = 1/10\<rparr>"

definition ex_transmission_row :: transmission_row where
  "ex_transmission_row = \<lparr>t_eff = 9/10, t_cap_lo = 0, t_cap_up = 100, t_inst_cap = 0,
     t_inv_cost = 5, t_fix_cost = 1, t_var_cost = 0, t_annuity_factor = 1/10\<rparr>"

definition ex_storage_row :: storage_row where
  "ex_storage_row = \<lparr>s_eff_in = 9/10, s_eff_out = 4/5, s_inst_cap_p = 0, s_inst_cap_c = 10,
     s_cap_lo_p = 0, s_cap_up_p = 50, s_cap_lo_c = 0, s_cap_up_c = 200, s_init = 1/2,
     s_inv_cost_p = 3, s_inv_cost_c = 4, s_fix_cost_p = 0, s_fix_cost_c = 0,
     s_var_cost_p = 1, s_var_cost_c = 0, s_annuity_factor = 1/10\<rparr>"

definition ex_data :: data where
  "ex_data = \<lparr>
     d_commodity = [((''A'', ''Elec'', ''Demand''), \<lparr>c_max = 0, c_maxperstep = 0, c_price = 0\<rparr>),
                    ((''B'', ''Elec'', ''Demand''), \<lparr>c_max = 0, c_maxperstep = 0, c_price = 0\<rparr>),
                    ((''A'', ''Coal'', ''Stock''), \<lparr>c_max = 100000, c_maxperstep = 500, c_price = 7\<rparr>),
                    ((''A'', ''Wind'', ''SupIm''), \<lparr>c_max = 0, c_maxperstep = 0, c_price = 0\<rparr>),
                    ((''Global'', ''CO2'', ''Env''), \<lparr>c_max = 150000000, c_maxperstep = 0, c_price = 0\<rparr>)],
     d_process = [((''A'', ''plant'', ''Coal'', ''Elec''), ex_process_row),
                  ((''A'', ''wt'', ''Wind'', ''Elec''), ex_process_row)],
     d_transmission = [((''A'', ''B'', ''hvac'', ''Elec''), ex_transmission_row),
                       ((''B'', ''A'', ''hvac'', ''Elec''), ex_transmission_row)],
     d_storage = [((''A'', ''bat'', ''Elec''), ex_storage_row)],
     d_demand = [(1, [((''A'', ''Elec''), 100), ((''B'', ''Elec''), 50)]),
                 (2, [((''A'', ''Elec''), 100), ((''B'', ''Elec''), 50)])],
     d_supim = [(1, [((''A'', ''Wind''), 1/2)]), (2, [((''A'', ''Wind''), 1/4)])]\<rparr>"

text \<open>A system with a single stock commodity, for a horizon of 24 timesteps.\<close>

definition ex_stock_data :: data where
  "ex_stock_data = \<lparr>
     d_commodity = [((''A'', ''Coal'', ''Stock''), \<lparr>c_max = 100000, c_maxperstep = 500, c_price = 7\<rparr>),
                    ((''Global'', ''CO2'', ''Env''), \<lparr>c_max = 150000000, c_maxperstep = 0, c_price = 0\<rparr>)],
     d_process = [], d_transmission = [], d_storage = [], d_demand = [], d_supim = []\<rparr>"

text \<open>The valuation that gives every variable the value 1.\<close>

definition ones :: "var \<Rightarrow> real" where
  "ones v = 1"

section \<open>Properties\<close>

subsection \<open>Results and errors\<close>

lemma bind_eq_Inr: "bind x f = Inr y \<longleftrightarrow> (\<exists>a. x = Inr a \<and> f a = Inr y)"
  by (cases x) auto

lemma getvar_eq_Inr: "getvar m v = Inr e \<longleftrightarrow> var_exists m v \<and> e = V v"
  by (auto simp: getvar_def)

lemma e_add_eq_Inr: "e_add x y = Inr z \<longleftrightarrow> (\<exists>a b. x = Inr a \<and> y = Inr b \<and> z = Add a b)"
  by (cases x; cases y) (auto simp: e_add_def)

lemma e_sub_eq_Inr: "e_sub x y = Inr z \<longleftrightarrow> (\<exists>a b. x = Inr a \<and> y = Inr b \<and> z = Sub a b)"
  by (cases x; cases y) (auto simp: e_sub_def)

subsection \<open>The commodity balance\<close>

lemma foldM_balance_pro_eval:
  "foldM (balance_pro m tm sit com) b ps = Inr e \<Longrightarrow>
   eval \<rho> e = eval \<rho> b
     + sum_list (map (\<lambda>p. \<rho> (e_pro_in tm p)) (filter (\<lambda>(p0, p1, p2, p3). p0 = sit \<and> p2 = com) ps))
     - sum_list (map (\<lambda>p. \<rho> (e_pro_out tm p)) (filter (\<lambda>(p0, p1, p2, p3). p0 = sit \<and> p3 = com) ps))"
proof (induction ps arbitrary: b)
  case Nil
  then show ?case by simp
next
  case (Cons p ps)
  obtain p0 p1 p2 p3 where p: "p = (p0, p1, p2, p3)" by (cases p) auto
  from Cons.prems obtain b' where step: "balance_pro m tm sit com b p = Inr b'"
    and rest: "foldM (balance_pro m tm sit com) b' ps = Inr e"
    by (auto simp: bind_eq_Inr)
  from step have "eval \<rho> b' = eval \<rho> b
      + (if p0 = sit \<and> p2 = com then \<rho> (e_pro_in tm p) else 0)
      - (if p0 = sit \<and> p3 = com then \<rho> (e_pro_out tm p) else 0)"
    by (auto simp: balance_pro_def p bind_eq_Inr e_add_eq_Inr e_sub_eq_Inr getvar_eq_Inr split: if_splits)
  with Cons.IH[OF rest] show ?case by (simp add: p)
qed

lemma foldM_balance_tra_eval:
  "foldM (balance_tra m tm sit com) b ts = Inr e \<Longrightarrow>
   eval \<rho> e = eval \<rho> b
     + sum_list (map (\<lambda>t. \<rho> (e_tra_in tm t)) (filter (\<lambda>(t0, t1, t2, t3). t0 = sit \<and> t3 = com) ts))
     - sum_list (map (\<lambda>t. \<rho> (e_tra_out tm t)) (filter (\<lambda>(t0, t1, t2, t3). t1 = sit \<and> t3 = com) ts))"
proof (induction ts arbitrary: b)
  case Nil
  then show ?case by simp
next
  case (Cons t ts)
  obtain t0 t1 t2 t3 where t: "t = (t0, t1, t2, t3)" by (cases t) auto
  from Cons.prems obtain b' where step: "balance_tra m tm sit com b t = Inr b'"
    and rest: "foldM (balance_tra m tm sit com) b' ts = Inr e"
    by (auto simp: bind_eq_Inr)
  from step have "eval \<rho> b' = eval \<rho> b
      + (if t0 = sit \<and> t3 = com then \<rho> (e_tra_in tm t) else 0)
      - (if t1 = sit \<and> t3 = com then \<rho> (e_tra_out tm t) else 0)"
    by (auto simp: balance_tra_def t bind_eq_Inr e_add_eq_Inr e_sub_eq_Inr getvar_eq_Inr split: if_splits)
  with Cons.IH[OF rest] show ?case by (simp add: t)
qed

lemma foldM_balance_sto_eval:
  "foldM (balance_sto m tm sit com) b ss = Inr e \<Longrightarrow>
   eval \<rho> e = eval \<rho> b
     + sum_list (map (\<lambda>s. \<rho> (e_sto_in tm s) - \<rho> (e_sto_out tm s))
         (filter (\<lambda>(s0, s1, s2). s0 = sit \<and> s2 = com) ss))"
proof (induction ss arbitrary: b)
  case Nil
  then show ?case by simp
next
  case (Cons s ss)
  obtain s0 s1 s2 where s: "s = (s0, s1, s2)" by (cases s) auto
  from Cons.prems obtain b' where step: "balance_sto m tm sit com b s = Inr b'"
    and rest: "foldM (balance_sto m tm sit com) b' ss = Inr e"
    by (auto simp: bind_eq_Inr)
  from step have "eval \<rho> b' = eval \<rho> b
      + (if s0 = sit \<and> s2 = com then \<rho> (e_sto_in tm s) - \<rho> (e_sto_out tm s) else 0)"
    by (auto simp: balance_sto_def s bind_eq_Inr e_add_eq_Inr e_sub_eq_Inr getvar_eq_Inr split: if_splits)
  with Cons.IH[OF rest] show ?case by (simp add: s)
qed

lemma foldM_balance_pro_total:
  "tm \<in> set (m_tm m) \<Longrightarrow> set ps \<subseteq> set (m_pro_tuples m) \<Longrightarrow>
   \<exists>e. foldM (balance_pro m tm sit com) b ps = Inr e"
  by (induction ps arbitrary: b)
     (auto simp: balance_pro_def e_add_def e_sub_def getvar_def)

lemma foldM_balance_tra_total:
  "tm \<in> set (m_tm m) \<Longrightarrow> set ts \<subseteq> set (m_tra_tuples m) \<Longrightarrow>
   \<exists>e. foldM (balance_tra m tm sit com) b ts = Inr e"
  by (induction ts arbitrary: b)
     (auto simp: balance_tra_def e_add_def e_sub_def getvar_def)

lemma foldM_balance_sto_total:
  "tm \<in> set (m_tm m) \<Longrightarrow> set ss \<subseteq> set (m_sto_tuples m) \<Longrightarrow>
   \<exists>e. foldM (balance_sto m tm sit com) b ss = Inr e"
  by (induction ss arbitrary: b)
     (auto simp: balance_sto_def e_add_def e_sub_def getvar_def)

lemma commodity_balance_total:
  assumes "tm \<in> set (m_tm m)"
  shows "\<exists>e. commodity_balance m tm sit com = Inr e"
proof -
  obtain e1 where 1: "foldM (balance_pro m tm sit com) (Num 0) (m_pro_tuples m) = Inr e1"
    using foldM_balance_pro_total[OF assms order_refl] by blast
  obtain e2 where 2: "foldM (balance_tra m tm sit com) e1 (m_tra_tuples m) = Inr e2"
    using foldM_balance_tra_total[OF assms order_refl] by blast
  obtain e3 where 3: "foldM (balance_sto m tm sit com) e2 (m_sto_tuples m) = Inr e3"
    using foldM_balance_sto_total[OF assms order_refl] by blast
  show ?thesis by (simp add: commodity_balance_def 1 2 3)
qed

lemma commodity_balance_eval:
  assumes "commodity_balance m tm sit com = Inr e"
  shows "eval \<rho> e = signed_sum m \<rho> tm sit com"
proof -
  from assms obtain e1 e2
    where 1: "foldM (balance_pro m tm sit com) (Num 0) (m_pro_tuples m) = Inr e1"
      and 2: "foldM (balance_tra m tm sit com) e1 (m_tra_tuples m) = Inr e2"
      and 3: "foldM (balance_sto m tm sit com) e2 (m_sto_tuples m) = Inr e"
    by (auto simp: commodity_balance_def bind_eq_Inr)
  show ?thesis
    unfolding signed_sum_def
    using foldM_balance_pro_eval[OF 1, of \<rho>] foldM_balance_tra_eval[OF 2, of \<rho>]
      foldM_balance_sto_eval[OF 3, of \<rho>]
    by simp
qed

text \<open>
  Claim C1. For every modelled timestep, site and commodity, \<^verbatim>\<open>commodity_balance\<close>
  returns an expression, and whenever it returns one, its value under any valuation of
  the variables is the signed sum: plus the input flow of every process at the site whose
  input commodity is the target, minus the output flow of every process at the site whose
  output commodity is the target, plus the input flow of every transmission line that
  starts at the site, minus the output flow of every line that ends at the site, plus
  input minus output flow of every storage at the site, each for the target commodity.
\<close>

theorem commodity_balance_signed_sum:
  "(tm \<in> set (m_tm m) \<longrightarrow> (\<exists>e. commodity_balance m tm sit com = Inr e)) \<and>
   (\<forall>e \<rho>. commodity_balance m tm sit com = Inr e \<longrightarrow> eval \<rho> e = signed_sum m \<rho> tm sit com)"
  using commodity_balance_total commodity_balance_eval by blast

text \<open>The sets of the small energy system, over the timesteps 0, 1, 2.\<close>

lemma ex_sets:
  "\<exists>m. create_model_sets [''Inv'', ''Fix'', ''Var'', ''Fuel''] ex_data [0, 1, 2] 1 = Inr m \<and> m_tm m = [1, 2]"
  by (simp add: create_model_sets_def ex_data_def)

theorem commodity_balance_signed_sum_witness:
  "\<exists>m e. create_model_sets [''Inv'', ''Fix'', ''Var'', ''Fuel''] ex_data [0, 1, 2] 1 = Inr m \<and>
     1 \<in> set (m_tm m) \<and> commodity_balance m 1 ''A'' ''Elec'' = Inr e \<and>
     (\<forall>\<rho>. eval \<rho> e = signed_sum m \<rho> 1 ''A'' ''Elec'')"
proof -
  obtain m where m: "create_model_sets [''Inv'', ''Fix'', ''Var'', ''Fuel''] ex_data [0, 1, 2] 1 = Inr m"
    and tm: "m_tm m = [1, 2]"
    using ex_sets by blast
  have 1: "1 \<in> set (m_tm m)" by (simp add: tm)
  from commodity_balance_signed_sum[of 1 m "''A''" "''Elec''"] 1 m show ?thesis by blast
qed

subsection \<open>The annuity factor\<close>

lemma annuity_20: "\<bar>(107 / 100 :: real) ^ 20 * (7 / 100) / ((107 / 100) ^ 20 - 1) - 9439 / 100000\<bar> < 5 / 100000"
  by (simp add: power_divide)

text \<open>
  Claim C6. For a depreciation period \<open>n > 0\<close>, a rate \<open>i > -1\<close> and
  \<open>(1+i)\<^sup>n \<noteq> 1\<close>, \<^verbatim>\<open>annuity_factor\<close> returns \<open>(1+i)\<^sup>n i / ((1+i)\<^sup>n - 1)\<close>;
  for 20 years at 7 percent the result is 0.09439 within half a unit of the fifth decimal.
\<close>

theorem annuity_factor_formula:
  "(0 < n \<and> - 1 < i \<and> power_int (1 + i) n \<noteq> 1 \<longrightarrow>
      annuity_factor n i = Inr ((1 + i) ^ nat n * i / ((1 + i) ^ nat n - 1))) \<and>
   (\<exists>r. annuity_factor 20 (7 / 100) = Inr r \<and> \<bar>r - 9439 / 100000\<bar> < 5 / 100000)"
proof
  show "0 < n \<and> - 1 < i \<and> power_int (1 + i) n \<noteq> 1 \<longrightarrow>
      annuity_factor n i = Inr ((1 + i) ^ nat n * i / ((1 + i) ^ nat n - 1))"
    by (auto simp: annuity_factor_def power_int_def)
  have ne: "(107 / 100 :: real) ^ 20 \<noteq> 1" by (simp add: power_divide)
  have "annuity_factor 20 (7 / 100) = Inr ((107 / 100) ^ 20 * (7 / 100) / ((107 / 100) ^ 20 - 1))"
    using ne by (simp add: annuity_factor_def)
  with annuity_20 show "\<exists>r. annuity_factor 20 (7 / 100) = Inr r \<and> \<bar>r - 9439 / 100000\<bar> < 5 / 100000"
    by blast
qed

theorem annuity_factor_formula_witness:
  "(0::int) < 2 \<and> - 1 < (1::real) \<and> power_int (1 + 1 :: real) 2 \<noteq> 1 \<and> annuity_factor 2 1 = Inr (4 / 3)"
  using annuity_factor_formula[of 2 1] by simp

lemma powi_eq_1: fixes b :: real assumes "0 < b" shows "power_int b n = 1 \<longleftrightarrow> n = 0 \<or> b = 1"
  by (metis assms leI of_int_0 of_int_eq_iff order.asym power_int_1_left
    powr_inj powr_real_of_int' powr_zero_eq_one)

text \<open>
  Claim C7 says that \<^verbatim>\<open>annuity_factor\<close> fails whenever \<open>n \<le> 0\<close>. For a period of
  \<open>-1\<close> and a rate of 1 it returns \<open>-1\<close>.
\<close>

theorem annuity_factor_nonpositive_period_counterexample:
  "(- 1 :: int) \<le> 0 \<and> - 1 < (1 :: real) \<and> annuity_factor (- 1) 1 = Inr (- 1)"
  by (simp add: annuity_factor_def)

text \<open>
  Claim C7, amended. For a rate \<open>i > -1\<close>, \<^verbatim>\<open>annuity_factor\<close> raises
  ZeroDivisionError exactly when \<open>(1+i)\<^sup>n = 1\<close>, that is when \<open>n = 0\<close> or \<open>i = 0\<close>;
  for every other input, a negative period included, it returns the value of the formula.
\<close>

theorem annuity_factor_fails_iff:
  assumes "- 1 < i"
  shows "(annuity_factor n i = Inl ZeroDivisionError \<longleftrightarrow> power_int (1 + i) n = 1) \<and>
         (power_int (1 + i) n = 1 \<longleftrightarrow> n = 0 \<or> i = 0) \<and>
         (power_int (1 + i) n \<noteq> 1 \<longrightarrow>
            annuity_factor n i = Inr (power_int (1 + i) n * i / (power_int (1 + i) n - 1)))"
proof -
  have pos: "0 < 1 + i" using assms by simp
  have "power_int (1 + i) n = 1 \<longleftrightarrow> n = 0 \<or> i = 0"
    using powi_eq_1[OF pos, of n] by simp
  moreover have "1 + i \<noteq> 0" using pos by simp
  ultimately show ?thesis by (auto simp: annuity_factor_def)
qed

theorem annuity_factor_fails_iff_witness:
  "- 1 < (0 :: real) \<and> annuity_factor 5 0 = Inl ZeroDivisionError \<and>
   - 1 < (1 :: real) \<and> annuity_factor 0 1 = Inl ZeroDivisionError \<and>
   annuity_factor (- 2) 1 = Inr (- (1 / 3))"
  using annuity_factor_fails_iff[of 0 5] annuity_factor_fails_iff[of 1 0] annuity_factor_fails_iff[of 1 "- 2"]
  by (simp add: power_int_minus)


subsection \<open>Constraint blocks and the build\<close>

lemma Constraint_keys:
  "Constraint rule idx = Inr cs \<Longrightarrow> fst ` set cs \<subseteq> set idx"
proof (induction idx arbitrary: cs)
  case Nil
  then show ?case by simp
next
  case (Cons i idx)
  then show ?case
    by (fastforce simp: bind_eq_Inr split: option.splits)
qed

lemma Constraint_map_of:
  "Constraint rule idx = Inr cs \<Longrightarrow> i \<in> set idx \<Longrightarrow> rule i = Inr (map_of cs i)"
proof (induction idx arbitrary: cs)
  case Nil
  then show ?case by simp
next
  case (Cons j idx)
  from Cons.prems(1) obtain c cs' where c: "rule j = Inr c"
    and cs': "Constraint rule idx = Inr cs'"
    and cs: "cs = (case c of None \<Rightarrow> cs' | Some c' \<Rightarrow> (j, c') # cs')"
    by (auto simp: bind_eq_Inr)
  show ?case
  proof (cases "i = j")
    case True
    show ?thesis
    proof (cases c)
      case None
      have "map_of cs' i = None"
      proof (cases "i \<in> set idx")
        case True
        from Cons.IH[OF cs' True] c \<open>i = j\<close> None show ?thesis by simp
      next
        case False
        with Constraint_keys[OF cs'] show ?thesis
          by (auto simp: map_of_eq_None_iff)
      qed
      with None c cs True show ?thesis by simp
    next
      case (Some c')
      with c cs True show ?thesis by simp
    qed
  next
    case False
    with Cons.prems(2) have "i \<in> set idx" by simp
    from Cons.IH[OF cs' this] False cs show ?thesis
      by (simp split: option.splits)
  qed
qed

lemma Constraint_member:
  "Constraint rule idx = Inr cs \<Longrightarrow> (i, c) \<in> set cs \<Longrightarrow> i \<in> set idx \<and> rule i = Inr (Some c)"
proof (induction idx arbitrary: cs)
  case Nil
  then show ?case by simp
next
  case (Cons j idx)
  then show ?case
    by (fastforce simp: bind_eq_Inr split: option.splits)
qed

lemma Constraint_fails:
  "i \<in> set idx \<Longrightarrow> rule i = Inl e \<Longrightarrow> \<exists>e'. Constraint rule idx = Inl e'"
proof (induction idx)
  case Nil
  then show ?case by simp
next
  case (Cons j idx)
  show ?case
  proof (cases "rule j")
    case (Inl a)
    then show ?thesis by simp
  next
    case (Inr c)
    with Cons have "i \<in> set idx" by auto
    from Cons.IH[OF this Cons.prems(2)] obtain e' where "Constraint rule idx = Inl e'" by blast
    with Inr show ?thesis by simp
  qed
qed

lemma create_model_constraints_Inr:
  assumes "create_model_constraints m = Inr b"
  shows "m_sets b = m"
    and "Constraint (res_demand_rule m) (List.product (m_tm m) (m_com_tuples m)) = Inr (res_demand b)"
    and "Constraint (def_e_co_stock_rule m) (List.product (m_tm m) (m_com_tuples m)) = Inr (def_e_co_stock b)"
    and "Constraint (res_stock_step_rule m) (List.product (m_tm m) (m_com_tuples m)) = Inr (res_stock_step b)"
    and "Constraint (res_stock_total_rule m) (m_com_tuples m) = Inr (res_stock_total b)"
    and "Constraint (def_process_capacity_rule m) (m_pro_tuples m) = Inr (def_process_capacity b)"
    and "Constraint (def_process_output_rule m) (List.product (m_tm m) (m_pro_tuples m)) = Inr (def_process_output b)"
    and "Constraint (def_intermittent_supply_rule m) (List.product (m_tm m) (m_pro_tuples m)) = Inr (def_intermittent_supply b)"
    and "Constraint (def_co2_emissions_rule m) (List.product (m_tm m) (m_pro_tuples m)) = Inr (def_co2_emissions b)"
    and "Constraint (res_process_output_by_capacity_rule m) (List.product (m_tm m) (m_pro_tuples m)) = Inr (res_process_output_by_capacity b)"
    and "Constraint (res_process_capacity_rule m) (m_pro_tuples m) = Inr (res_process_capacity b)"
    and "Constraint (def_transmission_capacity_rule m) (m_tra_tuples m) = Inr (def_transmission_capacity b)"
    and "Constraint (def_transmission_output_rule m) (List.product (m_tm m) (m_tra_tuples m)) = Inr (def_transmission_output b)"
    and "Constraint (res_transmission_input_by_capacity_rule m) (List.product (m_tm m) (m_tra_tuples m)) = Inr (res_transmission_input_by_capacity b)"
    and "Constraint (res_transmission_capacity_rule m) (m_tra_tuples m) = Inr (res_transmission_capacity b)"
    and "Constraint (res_transmission_symmetry_rule m) (m_tra_tuples m) = Inr (res_transmission_symmetry b)"
    and "Constraint (def_storage_state_rule m) (List.product (m_tm m) (m_sto_tuples m)) = Inr (def_storage_state b)"
    and "Constraint (def_storage_power_rule m) (m_sto_tuples m) = Inr (def_storage_power b)"
    and "Constraint (def_storage_capacity_rule m) (m_sto_tuples m) = Inr (def_storage_capacity b)"
    and "Constraint (res_storage_input_by_power_rule m) (List.product (m_tm m) (m_sto_tuples m)) = Inr (res_storage_input_by_power b)"
    and "Constraint (res_storage_output_by_power_rule m) (List.product (m_tm m) (m_sto_tuples m)) = Inr (res_storage_output_by_power b)"
    and "Constraint (res_storage_state_by_capacity_rule m) (List.product (m_t m) (m_sto_tuples m)) = Inr (res_storage_state_by_capacity b)"
    and "Constraint (res_storage_power_rule m) (m_sto_tuples m) = Inr (res_storage_power b)"
    and "Constraint (res_storage_capacity_rule m) (m_sto_tuples m) = Inr (res_storage_capacity b)"
    and "Constraint (res_initial_and_final_storage_state_rule m) (List.product (m_t m) (m_sto_tuples m)) = Inr (res_initial_and_final_storage_state b)"
    and "Constraint (res_co2_emission_rule m) ([()]) = Inr (res_co2_emission b)"
    and "Constraint (def_costs_rule m) (m_cost_type m) = Inr (def_costs b)"
    and "obj b = obj_rule m"
  using assms unfolding create_model_constraints_def bind_eq_Inr by auto


lemma create_model_sets_Inr:
  assumes "create_model_sets cts data timesteps dt = Inr m"
  shows "m_commodity m = d_commodity data" "m_process m = d_process data"
    "m_transmission m = d_transmission data" "m_storage m = d_storage data"
    "m_demand m = d_demand data" "m_supim m = d_supim data"
    "m_t m = timesteps" "m_tm m = tl timesteps" "m_cost_type m = cts"
    "m_com_tuples m = map fst (d_commodity data)" "m_pro_tuples m = map fst (d_process data)"
    "m_tra_tuples m = map fst (d_transmission data)" "m_sto_tuples m = map fst (d_storage data)"
    "m_weight m = 8760 / (real (length timesteps) * dt)" "m_dt m = dt"
    "real (length timesteps) * dt \<noteq> 0"
    "m_com_stock m = remdups (map (\<lambda>c. fst (snd c))
                        (filter (\<lambda>c. snd (snd c) = ''Stock'') (map fst (d_commodity data))))"
    "m_com_supim m = remdups (map (\<lambda>c. fst (snd c))
                        (filter (\<lambda>c. snd (snd c) = ''SupIm'') (map fst (d_commodity data))))"
  using assms unfolding create_model_sets_def Let_def
  by (auto split: if_splits)

lemma create_model_Inr:
  assumes "create_model data timesteps dt = Inr b"
  shows "create_model_sets [''Inv'', ''Fix'', ''Var'', ''Fuel''] data timesteps dt = Inr (m_sets b)"
    and "create_model_constraints (m_sets b) = Inr b"
  using assms create_model_constraints_Inr(1)
  by (auto simp: create_model_def create_model_with_def bind_eq_Inr)


lemma c_eq_eq_Inr: "c_eq x y = Inr c \<longleftrightarrow> (\<exists>a b. x = Inr a \<and> y = Inr b \<and> c = Some (Eq a b))"
  by (cases x; cases y) (auto simp: c_eq_def)

lemma c_le_eq_Inr: "c_le x y = Inr c \<longleftrightarrow> (\<exists>a b. x = Inr a \<and> y = Inr b \<and> c = Some (Le a b))"
  by (cases x; cases y) (auto simp: c_le_def)

lemma c_ge_eq_Inr: "c_ge x y = Inr c \<longleftrightarrow> (\<exists>a b. x = Inr a \<and> y = Inr b \<and> c = Some (Ge a b))"
  by (cases x; cases y) (auto simp: c_ge_def)

lemma c_range_eq_Inr:
  "c_range lo x hi = Inr c \<longleftrightarrow> (\<exists>l a h. lo = Inr l \<and> x = Inr a \<and> hi = Inr h \<and> c = Some (Range l a h))"
  by (cases lo; cases x; cases hi) (auto simp: c_range_def)

lemma e_neg_eq_Inr: "e_neg x = Inr z \<longleftrightarrow> (\<exists>a. x = Inr a \<and> z = Neg a)"
  by (cases x) (auto simp: e_neg_def)

lemma e_mul_eq_Inr: "e_mul x k = Inr z \<longleftrightarrow> (\<exists>a r. x = Inr a \<and> k = Inr r \<and> z = MulC a r)"
  by (cases x; cases k) (auto simp: e_mul_def)

lemma e_div_eq_Inr:
  "e_div x k = Inr z \<longleftrightarrow> (\<exists>a r. x = Inr a \<and> k = Inr r \<and> r \<noteq> 0 \<and> z = DivC a r)"
  by (cases x; cases k) (auto simp: e_div_def)

lemma num_eq_Inr: "num k = Inr z \<longleftrightarrow> (\<exists>r. k = Inr r \<and> z = Num r)"
  by (cases k) (auto simp: num_def)

lemma attr_eq_Inr: "attr f row = Inr k \<longleftrightarrow> (\<exists>r. row = Inr r \<and> k = f r)"
  by (cases row) (auto simp: attr_def)

lemma loc_eq_Inr: "loc frame k = Inr r \<longleftrightarrow> map_of frame k = Some r"
  by (auto simp: loc_def split: option.splits)

lemmas eq_Inr = bind_eq_Inr getvar_eq_Inr e_add_eq_Inr e_sub_eq_Inr e_neg_eq_Inr e_mul_eq_Inr
  e_div_eq_Inr num_eq_Inr attr_eq_Inr loc_eq_Inr c_eq_eq_Inr c_le_eq_Inr c_ge_eq_Inr c_range_eq_Inr



subsection \<open>The example systems build\<close>

lemma ex_builds_unit: "map_sum id (\<lambda>b. ()) (create_model ex_data [0, 1, 2] 1) = Inr ()"
  by code_simp

lemma ex_builds: "\<exists>b. create_model ex_data [0, 1, 2] 1 = Inr b"
  using ex_builds_unit by (cases "create_model ex_data [0, 1, 2] 1") auto

lemma ex_stock_builds_unit:
  "map_sum id (\<lambda>b. ())
     (create_model ex_stock_data [1, 2, 3, 4, 5, 6, 7, 8, 9, 10, 11, 12, 13, 14, 15, 16, 17, 18, 19, 20, 21, 22, 23, 24] 1) = Inr ()"
  by code_simp

lemma ex_stock_builds:
  "\<exists>b. create_model ex_stock_data [1, 2, 3, 4, 5, 6, 7, 8, 9, 10, 11, 12, 13, 14, 15, 16, 17, 18, 19, 20, 21, 22, 23, 24] 1 = Inr b"
  using ex_stock_builds_unit
  by (cases "create_model ex_stock_data [1, 2, 3, 4, 5, 6, 7, 8, 9, 10, 11, 12, 13, 14, 15, 16, 17, 18, 19, 20, 21, 22, 23, 24] 1") auto


subsection \<open>Transmission\<close>

text \<open>
  Claim C9. In a model that \<^verbatim>\<open>create_model\<close> returns, every transmission tuple of
  the input table has the symmetry constraint that equates its total capacity variable
  with the one of the mirrored tuple. The mirrored tuple is then in the table as well:
  without it the rule raises KeyError and no model is returned.
\<close>

theorem transmission_symmetry_generated:
  assumes "create_model data timesteps dt = Inr b"
    and "(sit_in, sit_out, tra, com) \<in> fst ` set (d_transmission data)"
  shows "map_of (res_transmission_symmetry b) (sit_in, sit_out, tra, com) =
           Some (Eq (V (cap_tra (sit_in, sit_out, tra, com))) (V (cap_tra (sit_out, sit_in, tra, com)))) \<and>
         (sit_out, sit_in, tra, com) \<in> fst ` set (d_transmission data)"
proof -
  let ?m = "m_sets b"
  note sets = create_model_sets_Inr(1-16)[OF create_model_Inr(1)[OF assms(1)]]
  note cons = create_model_constraints_Inr[OF create_model_Inr(2)[OF assms(1)]]
  have "(sit_in, sit_out, tra, com) \<in> set (m_tra_tuples ?m)"
    using assms(2) by (simp add: sets)
  from Constraint_map_of[OF cons(16) this]
  show ?thesis
    by (auto simp: eq_Inr sets)
qed

theorem transmission_symmetry_generated_witness:
  "\<exists>b. create_model ex_data [0, 1, 2] 1 = Inr b \<and>
       (''A'', ''B'', ''hvac'', ''Elec'') \<in> fst ` set (d_transmission ex_data) \<and>
       map_of (res_transmission_symmetry b) (''A'', ''B'', ''hvac'', ''Elec'') =
         Some (Eq (V (cap_tra (''A'', ''B'', ''hvac'', ''Elec''))) (V (cap_tra (''B'', ''A'', ''hvac'', ''Elec''))))"
proof -
  obtain b where b: "create_model ex_data [0, 1, 2] 1 = Inr b" using ex_builds by blast
  have x: "(''A'', ''B'', ''hvac'', ''Elec'') \<in> fst ` set (d_transmission ex_data)"
    by (simp add: ex_data_def)
  from transmission_symmetry_generated[OF b x] b x show ?thesis by blast
qed


subsection \<open>Processes with intermittent supply\<close>

lemma com_supim_iff:
  assumes "create_model_sets cts data timesteps dt = Inr m"
  shows "com \<in> set (m_com_supim m) \<longleftrightarrow> (\<exists>s. (s, com, ''SupIm'') \<in> fst ` set (d_commodity data))"
  unfolding create_model_sets_Inr(18)[OF assms] by force

lemma com_stock_iff:
  assumes "create_model_sets cts data timesteps dt = Inr m"
  shows "com \<in> set (m_com_stock m) \<longleftrightarrow> (\<exists>s. (s, com, ''Stock'') \<in> fst ` set (d_commodity data))"
  unfolding create_model_sets_Inr(17)[OF assms] by force

text \<open>
  Claim C3, amended. In a model that \<^verbatim>\<open>create_model\<close> returns, for every process tuple
  and modelled timestep: if the input commodity is in \<^verbatim>\<open>m.com_supim\<close> (some commodity
  tuple of that name has type SupIm), the constraint input flow = total capacity times
  the supply series at that timestep is generated; otherwise that constraint is skipped;
  and in both cases the inequality output flow \<le> total capacity is generated too.
\<close>

theorem intermittent_supply_generated:
  assumes "create_model data timesteps dt = Inr b"
    and "(sit, pro, coin, cout) \<in> fst ` set (d_process data)"
    and "tm \<in> set (tl timesteps)"
  shows "(coin \<in> set (m_com_supim (m_sets b)) \<longrightarrow>
           (\<exists>a. series_at (d_supim data) tm sit coin = Inr a \<and>
                map_of (def_intermittent_supply b) (tm, sit, pro, coin, cout) =
                  Some (Eq (V (e_pro_in tm (sit, pro, coin, cout)))
                           (MulC (V (cap_pro (sit, pro, coin, cout))) a)))) \<and>
         (coin \<notin> set (m_com_supim (m_sets b)) \<longrightarrow>
            map_of (def_intermittent_supply b) (tm, sit, pro, coin, cout) = None) \<and>
         map_of (res_process_output_by_capacity b) (tm, sit, pro, coin, cout) =
           Some (Le (V (e_pro_out tm (sit, pro, coin, cout))) (V (cap_pro (sit, pro, coin, cout)))) \<and>
         (coin \<in> set (m_com_supim (m_sets b)) \<longleftrightarrow>
            (\<exists>s. (s, coin, ''SupIm'') \<in> fst ` set (d_commodity data)))"
proof -
  let ?m = "m_sets b"
  note sets = create_model_sets_Inr(1-16)[OF create_model_Inr(1)[OF assms(1)]]
  note cons = create_model_constraints_Inr[OF create_model_Inr(2)[OF assms(1)]]
  have idx: "(tm, sit, pro, coin, cout) \<in> set (List.product (m_tm ?m) (m_pro_tuples ?m))"
    using assms(2,3) by (simp add: sets)
  from Constraint_map_of[OF cons(8) idx]
  have 1: "coin \<in> set (m_com_supim ?m) \<longrightarrow>
           (\<exists>a. series_at (d_supim data) tm sit coin = Inr a \<and>
                map_of (def_intermittent_supply b) (tm, sit, pro, coin, cout) =
                  Some (Eq (V (e_pro_in tm (sit, pro, coin, cout)))
                           (MulC (V (cap_pro (sit, pro, coin, cout))) a)))"
    by (auto simp: eq_Inr sets)
  from Constraint_map_of[OF cons(8) idx]
  have 2: "coin \<notin> set (m_com_supim ?m) \<longrightarrow>
            map_of (def_intermittent_supply b) (tm, sit, pro, coin, cout) = None"
    by auto
  from Constraint_map_of[OF cons(10) idx]
  have 3: "map_of (res_process_output_by_capacity b) (tm, sit, pro, coin, cout) =
           Some (Le (V (e_pro_out tm (sit, pro, coin, cout))) (V (cap_pro (sit, pro, coin, cout))))"
    by (auto simp: eq_Inr)
  from 1 2 3 com_supim_iff[OF create_model_Inr(1)[OF assms(1)]] show ?thesis by blast
qed

theorem intermittent_supply_generated_witness:
  "\<exists>b. create_model ex_data [0, 1, 2] 1 = Inr b \<and>
       ''Wind'' \<in> set (m_com_supim (m_sets b)) \<and>
       map_of (def_intermittent_supply b) (1, ''A'', ''wt'', ''Wind'', ''Elec'') =
         Some (Eq (V (e_pro_in 1 (''A'', ''wt'', ''Wind'', ''Elec'')))
                  (MulC (V (cap_pro (''A'', ''wt'', ''Wind'', ''Elec''))) (1 / 2))) \<and>
       map_of (res_process_output_by_capacity b) (1, ''A'', ''wt'', ''Wind'', ''Elec'') =
         Some (Le (V (e_pro_out 1 (''A'', ''wt'', ''Wind'', ''Elec'')))
                  (V (cap_pro (''A'', ''wt'', ''Wind'', ''Elec'')))) \<and>
       ''Coal'' \<notin> set (m_com_supim (m_sets b)) \<and>
       map_of (def_intermittent_supply b) (1, ''A'', ''plant'', ''Coal'', ''Elec'') = None"
proof -
  obtain b where b: "create_model ex_data [0, 1, 2] 1 = Inr b" using ex_builds by blast
  have wt: "(''A'', ''wt'', ''Wind'', ''Elec'') \<in> fst ` set (d_process ex_data)"
    and plant: "(''A'', ''plant'', ''Coal'', ''Elec'') \<in> fst ` set (d_process ex_data)"
    by (simp_all add: ex_data_def)
  have t: "(1::int) \<in> set (tl [0, 1, 2])" by simp
  have wind: "\<exists>s. (s, ''Wind'', ''SupIm'') \<in> fst ` set (d_commodity ex_data)"
    by (rule exI[of _ "''A''"]) (simp add: ex_data_def)
  have coal: "\<not> (\<exists>s. (s, ''Coal'', ''SupIm'') \<in> fst ` set (d_commodity ex_data))"
    by (simp add: ex_data_def)
  have a: "series_at (d_supim ex_data) 1 ''A'' ''Wind'' = Inr (1 / 2)"
    by (simp add: series_at_def loc_def ex_data_def)
  from intermittent_supply_generated[OF b wt t] intermittent_supply_generated[OF b plant t]
    wind coal a b
  show ?thesis by auto
qed

text \<open>
  Claim C3 says that the intermittent-supply constraint replaces the inequality output
  flow \<le> total capacity. In the small system the wind turbine has the intermittent input
  Wind, and the inequality is generated for it at both modelled timesteps.
\<close>

theorem output_by_capacity_not_suppressed_counterexample:
  "map_sum id (m_com_supim \<circ> m_sets) (create_model ex_data [0, 1, 2] 1) = Inr [''Wind''] \<and>
   map_sum id res_process_output_by_capacity (create_model ex_data [0, 1, 2] 1) =
     Inr [((1, ''A'', ''plant'', ''Coal'', ''Elec''),
           Le (V (e_pro_out 1 (''A'', ''plant'', ''Coal'', ''Elec''))) (V (cap_pro (''A'', ''plant'', ''Coal'', ''Elec'')))),
          ((1, ''A'', ''wt'', ''Wind'', ''Elec''),
           Le (V (e_pro_out 1 (''A'', ''wt'', ''Wind'', ''Elec''))) (V (cap_pro (''A'', ''wt'', ''Wind'', ''Elec'')))),
          ((2, ''A'', ''plant'', ''Coal'', ''Elec''),
           Le (V (e_pro_out 2 (''A'', ''plant'', ''Coal'', ''Elec''))) (V (cap_pro (''A'', ''plant'', ''Coal'', ''Elec'')))),
          ((2, ''A'', ''wt'', ''Wind'', ''Elec''),
           Le (V (e_pro_out 2 (''A'', ''wt'', ''Wind'', ''Elec''))) (V (cap_pro (''A'', ''wt'', ''Wind'', ''Elec''))))]"
  by code_simp


subsection \<open>Storage\<close>

lemma preceding_consecutive:
  "consecutive ts \<Longrightarrow> t \<in> set (tl ts) \<Longrightarrow> preceding ts t = Some (t - 1)"
  by (induction ts t rule: preceding.induct) auto

text \<open>
  Claim C2, amended. In a model that \<^verbatim>\<open>create_model\<close> returns, for every storage tuple
  and modelled timestep \<open>t\<close> the state constraint is
  \<open>content[t] = content[t - 1] + input[t] eff_in dt - output[t] / eff_out dt\<close>, where
  \<open>t - 1\<close> is the timestep identifier minus one, itself a timestep of the horizon. The
  constraint has exactly these four variables, with coefficients \<open>1\<close>, \<open>eff_in dt\<close>,
  \<open>- dt / eff_out\<close> and \<open>- 1\<close>. When the timesteps count up by one, \<open>t - 1\<close> is the
  element that immediately precedes \<open>t\<close> in the sequence.
\<close>

theorem storage_state_generated:
  assumes "create_model data timesteps dt = Inr b"
    and "s \<in> fst ` set (d_storage data)"
    and "t \<in> set (tl timesteps)"
  shows "\<exists>row c. map_of (d_storage data) s = Some row \<and>
           map_of (def_storage_state b) (t, s) = Some c \<and>
           c = Eq (V (e_sto_con t s))
                  (Sub (Add (V (e_sto_con (t - 1) s))
                            (MulC (MulC (V (e_sto_in t s)) (s_eff_in row)) dt))
                       (MulC (DivC (V (e_sto_out t s)) (s_eff_out row)) dt)) \<and>
           con_vars c = {e_sto_con (t - 1) s, e_sto_in t s, e_sto_out t s, e_sto_con t s} \<and>
           con_coef c (e_sto_con (t - 1) s) = 1 \<and>
           con_coef c (e_sto_in t s) = s_eff_in row * dt \<and>
           con_coef c (e_sto_out t s) = - dt / s_eff_out row \<and>
           con_coef c (e_sto_con t s) = - 1 \<and>
           t - 1 \<in> set timesteps \<and>
           (consecutive timesteps \<longrightarrow> preceding timesteps t = Some (t - 1))"
proof -
  let ?m = "m_sets b"
  note sets = create_model_sets_Inr(1-16)[OF create_model_Inr(1)[OF assms(1)]]
  note cons = create_model_constraints_Inr[OF create_model_Inr(2)[OF assms(1)]]
  have idx: "(t, s) \<in> set (List.product (m_tm ?m) (m_sto_tuples ?m))"
    using assms(2,3) by (simp add: sets)
  from Constraint_map_of[OF cons(17) idx]
  obtain row where row: "map_of (d_storage data) s = Some row"
    and c: "map_of (def_storage_state b) (t, s) =
       Some (Eq (V (e_sto_con t s))
                  (Sub (Add (V (e_sto_con (t - 1) s))
                            (MulC (MulC (V (e_sto_in t s)) (s_eff_in row)) dt))
                       (MulC (DivC (V (e_sto_out t s)) (s_eff_out row)) dt)))"
    and prev: "t - 1 \<in> set timesteps"
    by (auto simp: eq_Inr sets)
  have "consecutive timesteps \<longrightarrow> preceding timesteps t = Some (t - 1)"
    using preceding_consecutive assms(3) by blast
  with row c prev show ?thesis
    by (auto simp: divide_inverse)
qed

theorem storage_state_generated_witness:
  "\<exists>b. create_model ex_data [0, 1, 2] 1 = Inr b \<and>
       map_of (def_storage_state b) (1, ''A'', ''bat'', ''Elec'') =
         Some (Eq (V (e_sto_con 1 (''A'', ''bat'', ''Elec'')))
                  (Sub (Add (V (e_sto_con 0 (''A'', ''bat'', ''Elec'')))
                            (MulC (MulC (V (e_sto_in 1 (''A'', ''bat'', ''Elec''))) (9 / 10)) 1))
                       (MulC (DivC (V (e_sto_out 1 (''A'', ''bat'', ''Elec''))) (4 / 5)) 1))) \<and>
       consecutive [0, 1, 2] \<and> preceding [0, 1, 2] 1 = Some 0"
proof -
  obtain b where b: "create_model ex_data [0, 1, 2] 1 = Inr b" using ex_builds by blast
  have s: "(''A'', ''bat'', ''Elec'') \<in> fst ` set (d_storage ex_data)"
    by (simp add: ex_data_def)
  have t: "(1::int) \<in> set (tl [0, 1, 2])" by simp
  have row: "map_of (d_storage ex_data) (''A'', ''bat'', ''Elec'') = Some ex_storage_row"
    by (simp add: ex_data_def)
  from storage_state_generated[OF b s t] row b
  show ?thesis by (auto simp: ex_storage_row_def)
qed

text \<open>
  Claim C2 says that the constraint of \<open>t\<close> refers to the content at the element before
  \<open>t\<close> in the sequence, not to the identifier minus one. For the timesteps 0, 2, 1 the
  model is built, and the constraint of timestep 2 refers to the content at timestep 1,
  while the element before 2 is 0.
\<close>

theorem storage_state_arithmetic_predecessor_counterexample:
  "map_sum id def_storage_state (create_model ex_data [0, 2, 1] 1) =
     Inr [((2, ''A'', ''bat'', ''Elec''),
           Eq (V (e_sto_con 2 (''A'', ''bat'', ''Elec'')))
              (Sub (Add (V (e_sto_con 1 (''A'', ''bat'', ''Elec'')))
                        (MulC (MulC (V (e_sto_in 2 (''A'', ''bat'', ''Elec''))) (9 / 10)) 1))
                   (MulC (DivC (V (e_sto_out 2 (''A'', ''bat'', ''Elec''))) (4 / 5)) 1))),
          ((1, ''A'', ''bat'', ''Elec''),
           Eq (V (e_sto_con 1 (''A'', ''bat'', ''Elec'')))
              (Sub (Add (V (e_sto_con 0 (''A'', ''bat'', ''Elec'')))
                        (MulC (MulC (V (e_sto_in 1 (''A'', ''bat'', ''Elec''))) (9 / 10)) 1))
                   (MulC (DivC (V (e_sto_out 1 (''A'', ''bat'', ''Elec''))) (4 / 5)) 1)))] \<and>
   preceding [0, 2, 1] 2 = Some 0"
  by code_simp

lemma set_item_first: "xs \<noteq> [] \<Longrightarrow> set_item xs (Suc 0) = Inr (hd xs)"
  by (cases xs) (auto simp: set_item_def)

lemma set_item_last: "xs \<noteq> [] \<Longrightarrow> set_item xs (length xs) = Inr (last xs)"
  by (cases xs rule: rev_cases) (auto simp: set_item_def nth_append)

lemma boundary_rule_unfold:
  "m_t m \<noteq> [] \<Longrightarrow>
   res_initial_and_final_storage_state_rule m (t, s) =
     (if t = hd (m_t m)
      then c_eq (getvar m (e_sto_con t s))
                (e_mul (getvar m (cap_sto_c s)) (attr s_init (loc (m_storage m) s)))
      else if t = last (m_t m)
      then c_ge (getvar m (e_sto_con t s))
                (e_mul (getvar m (cap_sto_c s)) (attr s_init (loc (m_storage m) s)))
      else Inr None)"
  by (simp add: set_item_first set_item_last)

text \<open>
  Claim C4, amended. In a model that \<^verbatim>\<open>create_model\<close> returns, for every storage
  tuple the boundary rule generates at the first timestep the equality
  \<open>content = total capacity \<times> init\<close>, at the last timestep, when it differs from the
  first, the inequality \<open>content \<ge> total capacity \<times> init\<close>, and no constraint at any
  other timestep.
\<close>

theorem initial_and_final_storage_state_generated:
  assumes "create_model data timesteps dt = Inr b"
    and "s \<in> fst ` set (d_storage data)"
  shows "\<exists>row. map_of (d_storage data) s = Some row \<and>
           map_of (res_initial_and_final_storage_state b) (hd timesteps, s) =
             Some (Eq (V (e_sto_con (hd timesteps) s)) (MulC (V (cap_sto_c s)) (s_init row))) \<and>
           (last timesteps \<noteq> hd timesteps \<longrightarrow>
              map_of (res_initial_and_final_storage_state b) (last timesteps, s) =
                Some (Ge (V (e_sto_con (last timesteps) s)) (MulC (V (cap_sto_c s)) (s_init row)))) \<and>
           (\<forall>t. t \<noteq> hd timesteps \<and> t \<noteq> last timesteps \<longrightarrow>
              map_of (res_initial_and_final_storage_state b) (t, s) = None)"
proof -
  let ?m = "m_sets b"
  let ?R = "res_initial_and_final_storage_state b"
  note sets = create_model_sets_Inr(1-16)[OF create_model_Inr(1)[OF assms(1)]]
  note cons = create_model_constraints_Inr[OF create_model_Inr(2)[OF assms(1)]]
  from sets(16) have ne: "timesteps \<noteq> []" by auto
  have ne': "m_t ?m \<noteq> []" using ne by (simp add: sets)
  have s: "s \<in> set (m_sto_tuples ?m)" using assms(2) by (simp add: sets)
  have idx: "t \<in> set timesteps \<Longrightarrow> (t, s) \<in> set (List.product (m_t ?m) (m_sto_tuples ?m))" for t
    using s by (simp add: sets)
  have rule: "t \<in> set timesteps \<Longrightarrow>
      (if t = hd timesteps
       then c_eq (getvar ?m (e_sto_con t s))
                 (e_mul (getvar ?m (cap_sto_c s)) (attr s_init (loc (m_storage ?m) s)))
       else if t = last timesteps
       then c_ge (getvar ?m (e_sto_con t s))
                 (e_mul (getvar ?m (cap_sto_c s)) (attr s_init (loc (m_storage ?m) s)))
       else Inr None) = Inr (map_of ?R (t, s))" for t
    using Constraint_map_of[OF cons(25) idx] boundary_rule_unfold[OF ne', of t s]
    by (simp add: sets(7))
  have hd_in: "hd timesteps \<in> set timesteps" and last_in: "last timesteps \<in> set timesteps"
    using ne by simp_all
  from rule[OF hd_in] obtain row where row: "map_of (d_storage data) s = Some row"
    and 1: "map_of ?R (hd timesteps, s) =
             Some (Eq (V (e_sto_con (hd timesteps) s)) (MulC (V (cap_sto_c s)) (s_init row)))"
    by (auto simp: eq_Inr sets)
  have 2: "map_of ?R (last timesteps, s) =
                Some (Ge (V (e_sto_con (last timesteps) s)) (MulC (V (cap_sto_c s)) (s_init row)))"
    if "last timesteps \<noteq> hd timesteps"
    using rule[OF last_in] that row
    by (auto simp: eq_Inr sets)
  have 3: "map_of ?R (t, s) = None" if "t \<noteq> hd timesteps" "t \<noteq> last timesteps" for t
  proof (cases "t \<in> set timesteps")
    case True
    from rule[OF True] that show ?thesis by auto
  next
    case False
    with Constraint_keys[OF cons(25)] show ?thesis
      by (auto simp: map_of_eq_None_iff sets)
  qed
  from row 1 2 3 show ?thesis by blast
qed

theorem initial_and_final_storage_state_generated_witness:
  "\<exists>b. create_model ex_data [0, 1, 2] 1 = Inr b \<and>
       map_of (res_initial_and_final_storage_state b) (0, ''A'', ''bat'', ''Elec'') =
         Some (Eq (V (e_sto_con 0 (''A'', ''bat'', ''Elec'')))
                  (MulC (V (cap_sto_c (''A'', ''bat'', ''Elec''))) (1 / 2))) \<and>
       map_of (res_initial_and_final_storage_state b) (2, ''A'', ''bat'', ''Elec'') =
         Some (Ge (V (e_sto_con 2 (''A'', ''bat'', ''Elec'')))
                  (MulC (V (cap_sto_c (''A'', ''bat'', ''Elec''))) (1 / 2))) \<and>
       map_of (res_initial_and_final_storage_state b) (1, ''A'', ''bat'', ''Elec'') = None"
proof -
  obtain b where b: "create_model ex_data [0, 1, 2] 1 = Inr b" using ex_builds by blast
  have s: "(''A'', ''bat'', ''Elec'') \<in> fst ` set (d_storage ex_data)"
    by (simp add: ex_data_def)
  have row: "map_of (d_storage ex_data) (''A'', ''bat'', ''Elec'') = Some ex_storage_row"
    by (simp add: ex_data_def)
  from initial_and_final_storage_state_generated[OF b s] row b
  show ?thesis by (auto simp: ex_storage_row_def)
qed

text \<open>
  Claim C4 says that the equality at the first timestep has the right side installed
  capacity \<times> init + total capacity \<times> init, and that the last timestep has an inequality.
  For the single timestep 0 the battery (installed capacity 10, init 1/2) gets one
  constraint, the equality with right side total capacity \<times> 1/2: with every variable at
  1 its value is 1/2, not 11/2, and there is no inequality.
\<close>

theorem boundary_rule_single_timestep_counterexample:
  "map_sum id res_initial_and_final_storage_state (create_model ex_data [0] 1) =
     Inr [((0, ''A'', ''bat'', ''Elec''),
           Eq (V (e_sto_con 0 (''A'', ''bat'', ''Elec'')))
              (MulC (V (cap_sto_c (''A'', ''bat'', ''Elec''))) (1 / 2)))] \<and>
   map_of (d_storage ex_data) (''A'', ''bat'', ''Elec'') = Some ex_storage_row \<and>
   eval ones (MulC (V (cap_sto_c (''A'', ''bat'', ''Elec''))) (1 / 2)) = 1 / 2 \<and>
   s_inst_cap_c ex_storage_row * s_init ex_storage_row
     + ones (cap_sto_c (''A'', ''bat'', ''Elec'')) * s_init ex_storage_row = 11 / 2"
  by code_simp


subsection \<open>Stock commodities\<close>

lemma foldM_total_consumption:
  "foldM (\<lambda>total_consumption tm. e_add (Inr total_consumption)
             (e_mul (getvar m (e_co_stock tm c)) (Inr k))) a tms = Inr e \<Longrightarrow>
   eval \<rho> e = eval \<rho> a + (\<Sum>tm\<leftarrow>tms. \<rho> (e_co_stock tm c) * k)"
  by (induction tms arbitrary: a) (auto simp: eq_Inr)

text \<open>
  Claim C5. In a model that \<^verbatim>\<open>create_model\<close> returns, the weight is 8760 divided by
  (number of timesteps times \<open>dt\<close>), which is 365 for 24 timesteps and \<open>dt = 1\<close>; and for
  every commodity tuple whose commodity is in \<^verbatim>\<open>m.com_stock\<close> (some commodity tuple of
  that name has type Stock) the annual cap constraint is generated: its left side has the
  value weight times the sum over the modelled timesteps of stock purchase times \<open>dt\<close>,
  its right side is the annual maximum of the tuple.
\<close>

theorem stock_total_generated:
  assumes "create_model data timesteps dt = Inr b"
  shows "m_weight (m_sets b) = 8760 / (real (length timesteps) * dt) \<and>
         (length timesteps = 24 \<and> dt = 1 \<longrightarrow> m_weight (m_sets b) = 365) \<and>
         ((sit, com, com_type) \<in> fst ` set (d_commodity data) \<and> com \<in> set (m_com_stock (m_sets b)) \<longrightarrow>
            (\<exists>lhs row. map_of (d_commodity data) (sit, com, com_type) = Some row \<and>
               map_of (res_stock_total b) (sit, com, com_type) = Some (Le lhs (Num (c_max row))) \<and>
               (\<forall>\<rho>. eval \<rho> lhs =
                  m_weight (m_sets b) * (\<Sum>tm\<leftarrow>tl timesteps. \<rho> (e_co_stock tm (sit, com, com_type)) * dt)))) \<and>
         (com \<in> set (m_com_stock (m_sets b)) \<longleftrightarrow>
            (\<exists>s. (s, com, ''Stock'') \<in> fst ` set (d_commodity data)))"
proof -
  let ?m = "m_sets b"
  note sets = create_model_sets_Inr(1-16)[OF create_model_Inr(1)[OF assms(1)]]
  note cons = create_model_constraints_Inr[OF create_model_Inr(2)[OF assms(1)]]
  have w: "m_weight ?m = 8760 / (real (length timesteps) * dt)" by (rule sets)
  have w24: "length timesteps = 24 \<and> dt = 1 \<longrightarrow> m_weight ?m = 365" by (simp add: w)
  have gen: "\<exists>lhs row. map_of (d_commodity data) (sit, com, com_type) = Some row \<and>
               map_of (res_stock_total b) (sit, com, com_type) = Some (Le lhs (Num (c_max row))) \<and>
               (\<forall>\<rho>. eval \<rho> lhs =
                  m_weight ?m * (\<Sum>tm\<leftarrow>tl timesteps. \<rho> (e_co_stock tm (sit, com, com_type)) * dt))"
    if c: "(sit, com, com_type) \<in> fst ` set (d_commodity data)" and st: "com \<in> set (m_com_stock ?m)"
  proof -
    have idx: "(sit, com, com_type) \<in> set (m_com_tuples ?m)" using c by (simp add: sets)
    from Constraint_map_of[OF cons(5) idx] st
    obtain total row where tot: "foldM (\<lambda>total_consumption tm. e_add (Inr total_consumption)
             (e_mul (getvar ?m (e_co_stock tm (sit, com, com_type))) (Inr (m_dt ?m)))) (Num 0) (m_tm ?m) = Inr total"
      and row: "map_of (d_commodity data) (sit, com, com_type) = Some row"
      and con: "map_of (res_stock_total b) (sit, com, com_type) =
                  Some (Le (MulC total (m_weight ?m)) (Num (c_max row)))"
      by (auto simp: eq_Inr sets(1))
    have "eval \<rho> (MulC total (m_weight ?m)) =
            m_weight ?m * (\<Sum>tm\<leftarrow>tl timesteps. \<rho> (e_co_stock tm (sit, com, com_type)) * dt)" for \<rho>
      using foldM_total_consumption[OF tot, of \<rho>] by (simp add: sets)
    with row con show ?thesis by blast
  qed
  from w w24 gen com_stock_iff[OF create_model_Inr(1)[OF assms(1)]] show ?thesis by blast
qed

theorem stock_total_generated_witness:
  "\<exists>b lhs. create_model ex_stock_data
         [1, 2, 3, 4, 5, 6, 7, 8, 9, 10, 11, 12, 13, 14, 15, 16, 17, 18, 19, 20, 21, 22, 23, 24] 1 = Inr b \<and>
       m_weight (m_sets b) = 365 \<and>
       ''Coal'' \<in> set (m_com_stock (m_sets b)) \<and>
       map_of (res_stock_total b) (''A'', ''Coal'', ''Stock'') = Some (Le lhs (Num 100000))"
proof -
  let ?ts = "[1, 2, 3, 4, 5, 6, 7, 8, 9, 10, 11, 12, 13, 14, 15, 16, 17, 18, 19, 20, 21, 22, 23, 24] :: int list"
  obtain b where b: "create_model ex_stock_data ?ts 1 = Inr b" using ex_stock_builds by blast
  have c: "(''A'', ''Coal'', ''Stock'') \<in> fst ` set (d_commodity ex_stock_data)"
    by (simp add: ex_stock_data_def)
  then have st: "\<exists>s. (s, ''Coal'', ''Stock'') \<in> fst ` set (d_commodity ex_stock_data)" by blast
  have row: "map_of (d_commodity ex_stock_data) (''A'', ''Coal'', ''Stock'') =
     Some \<lparr>c_max = 100000, c_maxperstep = 500, c_price = 7\<rparr>"
    by (simp add: ex_stock_data_def)
  have len: "length ?ts = 24 \<and> (1::real) = 1" by simp
  from stock_total_generated[OF b, of "''A''" "''Coal''" "''Stock''"] c st row len b
  show ?thesis by auto
qed

end
